theory Spec2Isabelle
  imports Complex_Main
begin

section \<open>Keras objects: layers, symbolic tensors, models\<close>

text \<open>
  \<^verbatim>\<open>src/vaegan/models.py\<close> builds a VAE-GAN with the Keras functional API. A layer
  constructor call creates a layer object that owns its weights; calling a layer or a
  model on a symbolic tensor creates a new symbolic tensor that refers to that object.
  The embedding keeps both: every constructor call draws a fresh object id from a
  counter that is threaded through the construction, and a symbolic tensor is a term
  that names the objects it was computed by.

  A keyword argument that the source does not pass is \<open>None\<close>: the framework's default
  applies and the source says nothing about its value. Python floats are modelled as
  reals (rounding is not modelled).
\<close>

datatype error = ZeroDivisionError

datatype regularizer = l2 real

datatype layer_config =
    Conv2D (filters: nat) (kernel_size: nat) (strides: "nat option") (padding: "string option")
      (activation: "string option") (kernel_regularizer: "regularizer option")
      (kernel_initializer: "string option") (layer_name: "string option")
  | Conv2DTranspose (filters: nat) (kernel_size: nat) (strides: "nat option")
      (padding: "string option") (activation: "string option")
      (kernel_regularizer: "regularizer option") (kernel_initializer: "string option")
      (layer_name: "string option")
  | Dense (units: nat) (activation: "string option") (kernel_regularizer: "regularizer option")
      (kernel_initializer: "string option") (layer_name: "string option")
      (input_shape: "nat list option")
  | BatchNormalization (momentum: "real option") (epsilon: "real option")
  | LeakyReLU (alpha: real)
  | Activation string
  | Flatten
  | Reshape (target_shape: "nat list")
  | Lambda (output_shape: "nat list") (layer_name: "string option")

text \<open>A layer object: its identity (the creation index) and the arguments it was built with.\<close>

datatype layer = Layer (lid: nat) (config: layer_config)

text \<open>
  Symbolic tensors. \<open>Input\<close> is a placeholder, \<open>Apply l xs\<close> is \<open>l(xs)\<close> for a layer,
  \<open>Call m xs k\<close> is output \<open>k\<close> of \<open>m(xs)\<close> for a model; the remaining constructors are the
  backend operations the source uses to build its losses. \<open>MGNLL\<close> is
  \<open>mean_gaussian_negative_log_likelihood\<close>, imported from \<open>.losses\<close> and used as a black box.
\<close>

datatype tensor =
    Input nat string "nat list"
  | Apply layer "tensor list"
  | Call model "tensor list" nat
  | Const real
  | Add tensor tensor
  | Sub tensor tensor
  | Mul tensor tensor
  | Square tensor
  | Exp tensor
  | Sum_last tensor
  | Mean tensor
  | MGNLL tensor tensor
and model =
    Model (mname: string) (inputs: "tensor list") (outputs: "tensor list") (losses: "tensor list")
  | Sequential (mname: string) (seq_layers: "layer list")

subsection \<open>Object creation\<close>

definition new_layer :: "layer_config \<Rightarrow> nat \<Rightarrow> layer \<times> nat" where
  "new_layer c n = (Layer n c, Suc n)"

definition new_input :: "nat list \<Rightarrow> string \<Rightarrow> nat \<Rightarrow> tensor \<times> nat" where
  "new_input shape nm n = (Input n nm shape, Suc n)"

text \<open>\<open>m(xs)\<close>: a functional model returns one tensor per declared output, a \<open>Sequential\<close>
  model a single one.\<close>

definition call_model :: "model \<Rightarrow> tensor list \<Rightarrow> tensor list" where
  "call_model m xs =
     (case m of
        Model nm ins outs ls \<Rightarrow> map (\<lambda>(k, _). Call m xs k) (enumerate 0 outs)
      | Sequential nm ls \<Rightarrow> [Call m xs 0])"

text \<open>\<open>m.add_loss(t)\<close> appends to the losses bound to the model. The source calls it on
  functional models only.\<close>

definition add_loss :: "model \<Rightarrow> tensor \<Rightarrow> model" where
  "add_loss m t =
     (case m of
        Model nm ins outs ls \<Rightarrow> Model nm ins outs (ls @ [t])
      | Sequential nm ls \<Rightarrow> Sequential nm ls)"

definition py_div :: "real \<Rightarrow> real \<Rightarrow> error + real" where
  "py_div a b = (if b = 0 then Inl ZeroDivisionError else Inr (a / b))"

section \<open>The model builder\<close>

definition image_shape :: "nat list" where "image_shape = [64, 64, 3]"
definition n_channels :: nat where "n_channels = last image_shape"
definition n_encoder :: nat where "n_encoder = 1024"
definition n_discriminator :: nat where "n_discriminator = 512"
definition latent_dim :: nat where "latent_dim = 128"
definition decode_from_shape :: "nat list" where "decode_from_shape = [8, 8, 256]"
definition n_decoder :: nat where "n_decoder = prod_list decode_from_shape"
definition leaky_relu_alpha :: real where "leaky_relu_alpha = 0.2"

text \<open>
  \<open>conv_block(x, filters, leaky, transpose)\<close> creates the activation, then the
  convolution and the batch normalisation, in that order, and lists them as
  \<open>[conv, bn, activation]\<close>. With \<open>x is None\<close> it returns the list
  (\<open>conv_block_layers\<close>); otherwise it applies the three layers to \<open>x\<close> in turn
  (\<open>conv_block\<close>). The closure variables \<open>wdecay\<close>, \<open>bn_mom\<close>, \<open>bn_eps\<close> are parameters.
\<close>

definition conv_block_layers ::
  "real \<Rightarrow> real \<Rightarrow> real \<Rightarrow> nat \<Rightarrow> bool \<Rightarrow> bool \<Rightarrow> nat \<Rightarrow> layer list \<times> nat" where
  "conv_block_layers wdecay bn_mom bn_eps fltrs leaky transposed n =
     (let conv = (if transposed then Conv2DTranspose else Conv2D);
          (act, n) = new_layer (if leaky then LeakyReLU leaky_relu_alpha
                                else Activation ''relu'') n;
          (c, n) = new_layer (conv fltrs 5 (Some 2) (Some ''same'') None (Some (l2 wdecay))
                                (Some ''he_uniform'') None) n;
          (b, n) = new_layer (BatchNormalization (Some bn_mom) (Some bn_eps)) n
      in ([c, b, act], n))"

definition conv_block ::
  "real \<Rightarrow> real \<Rightarrow> real \<Rightarrow> tensor \<Rightarrow> nat \<Rightarrow> bool \<Rightarrow> bool \<Rightarrow> nat \<Rightarrow> tensor \<times> nat" where
  "conv_block wdecay bn_mom bn_eps x fltrs leaky transposed n =
     (let (layers, n) = conv_block_layers wdecay bn_mom bn_eps fltrs leaky transposed n
      in (foldl (\<lambda>x l. Apply l [x]) x layers, n))"

definition create_encoder :: "real \<Rightarrow> real \<Rightarrow> real \<Rightarrow> nat \<Rightarrow> model \<times> nat" where
  "create_encoder wdecay bn_mom bn_eps n =
     (let (enc_input, n) = new_input image_shape ''input_image'' n;
          (y, n) = conv_block wdecay bn_mom bn_eps enc_input 64 True False n;
          (y, n) = conv_block wdecay bn_mom bn_eps y 128 True False n;
          (y, n) = conv_block wdecay bn_mom bn_eps y 256 True False n;
          (l, n) = new_layer Flatten n;
          y = Apply l [y];
          (l, n) = new_layer (Dense n_encoder None (Some (l2 wdecay)) (Some ''he_uniform'')
                                None None) n;
          y = Apply l [y];
          (l, n) = new_layer (BatchNormalization None None) n;
          y = Apply l [y];
          (l, n) = new_layer (LeakyReLU leaky_relu_alpha) n;
          y = Apply l [y];
          (l, n) = new_layer (Dense latent_dim None None (Some ''he_uniform'')
                                (Some ''z_mean'') None) n;
          z_mean = Apply l [y];
          (l, n) = new_layer (Dense latent_dim None None (Some ''he_uniform'')
                                (Some ''z_log_var'') None) n;
          z_log_var = Apply l [y]
      in (Model ''encoder'' [enc_input] [z_mean, z_log_var] [], n))"

definition create_discriminator :: "real \<Rightarrow> real \<Rightarrow> real \<Rightarrow> nat \<Rightarrow> model \<times> nat" where
  "create_discriminator wdecay bn_mom bn_eps n =
     (let (dis_input, n) = new_input image_shape ''discriminator_input'' n;
          (l, n) = new_layer (Conv2D 32 5 None (Some ''same'') None (Some (l2 wdecay))
                                (Some ''he_uniform'') None) n;
          d = Apply l [dis_input];
          (l, n) = new_layer (LeakyReLU leaky_relu_alpha) n;
          d = Apply l [d];
          (d, n) = conv_block wdecay bn_mom bn_eps d 128 True False n;
          (d, n) = conv_block wdecay bn_mom bn_eps d 256 True False n;
          (ls, n) = conv_block_layers wdecay bn_mom bn_eps 256 True False n;
          d_feat = Apply (ls ! 0) [d];
          (l, n) = new_layer (BatchNormalization (Some bn_mom) (Some bn_eps)) n;
          d = Apply l [d_feat];
          (l, n) = new_layer (LeakyReLU leaky_relu_alpha) n;
          d = Apply l [d];
          (l, n) = new_layer Flatten n;
          d = Apply l [d];
          (l, n) = new_layer (Dense n_discriminator None (Some (l2 wdecay))
                                (Some ''he_uniform'') None None) n;
          d = Apply l [d];
          (l, n) = new_layer (BatchNormalization None None) n;
          d = Apply l [d];
          (l, n) = new_layer (LeakyReLU leaky_relu_alpha) n;
          d = Apply l [d];
          (l, n) = new_layer (Dense 1 (Some ''sigmoid'') (Some (l2 wdecay))
                                (Some ''he_uniform'') None None) n;
          d = Apply l [d]
      in (Model ''discriminator'' [dis_input] [d, d_feat] [], n))"

definition create_models :: "real \<Rightarrow> real \<Rightarrow> real \<Rightarrow> real \<Rightarrow> error + model list" where
  "create_models recon_vs_gan_weight wdecay bn_mom bn_eps =
     (let n = 0;
          (sampler, n) = new_layer (Lambda [latent_dim] (Some ''sampler'')) n;
          (d1, n) = new_layer (Dense n_decoder None (Some (l2 wdecay)) (Some ''he_uniform'')
                                 None (Some [latent_dim])) n;
          (d2, n) = new_layer (BatchNormalization None None) n;
          (d3, n) = new_layer (LeakyReLU leaky_relu_alpha) n;
          (d4, n) = new_layer (Reshape decode_from_shape) n;
          (b1, n) = conv_block_layers wdecay bn_mom bn_eps 256 True True n;
          (b2, n) = conv_block_layers wdecay bn_mom bn_eps 128 True True n;
          (b3, n) = conv_block_layers wdecay bn_mom bn_eps 32 True True n;
          (d5, n) = new_layer (Conv2D n_channels 5 None (Some ''same'') (Some ''tanh'')
                                 (Some (l2 wdecay)) (Some ''he_uniform'')
                                 (Some ''output_image'')) n;
          decoder = Sequential ''decoder'' ([d1, d2, d3, d4] @ b1 @ b2 @ b3 @ [d5]);
          (encoder, n) = create_encoder wdecay bn_mom bn_eps n;
          (discriminator, n) = create_discriminator wdecay bn_mom bn_eps n;
          (x, n) = new_input image_shape ''input_image'' n;
          (z_p, n) = new_input [latent_dim] ''z_p'' n;
          enc_x = call_model encoder [x];
          z_mean = enc_x ! 0;
          z_log_var = enc_x ! 1;
          z = Apply sampler [z_mean, z_log_var];
          x_tilde = call_model decoder [z] ! 0;
          x_p = call_model decoder [z_p] ! 0;
          dis_x = call_model discriminator [x];
          dis_x_tilde = call_model discriminator [x_tilde];
          dis_x_p = call_model discriminator [x_p];
          dis_nll_loss = MGNLL (dis_x ! 1) (dis_x_tilde ! 1);
          kl_loss = Mean (Mul (Const (- 0.5))
                      (Sum_last (Sub (Sub (Add (Const 1) z_log_var) (Square z_mean))
                                     (Exp z_log_var))));
          encoder_train = Model ''e'' [x] [dis_x_tilde ! 1] [];
          encoder_train = add_loss encoder_train kl_loss;
          encoder_train = add_loss encoder_train dis_nll_loss;
          decoder_train = Model ''de'' [x, z_p] [dis_x_tilde ! 0, dis_x_p ! 0] []
      in case py_div recon_vs_gan_weight (1 - recon_vs_gan_weight) of
           Inl e \<Rightarrow> Inl e
         | Inr normalized_weight \<Rightarrow>
             (let decoder_train = add_loss decoder_train
                                    (Mul (Const normalized_weight) dis_nll_loss);
                  discriminator_train =
                    Model ''di'' [x, z_p] [dis_x ! 0, dis_x_tilde ! 0, dis_x_p ! 0] [];
                  vae = Model ''vae'' [x] [x_tilde] [];
                  vaegan = Model ''vaegan'' [x] [dis_x_tilde ! 0] []
              in Inr [encoder, decoder, discriminator, encoder_train, decoder_train,
                      discriminator_train, vae, vaegan]))"

section \<open>Reading a graph\<close>

text \<open>
  The layer objects a tensor or a model is computed by, in application order. A model's
  layers are those of its outputs and of its bound losses; a nested model contributes
  its own layers.
\<close>

primrec tensor_layers :: "tensor \<Rightarrow> layer list"
  and tensors_layers :: "tensor list \<Rightarrow> layer list"
  and model_layers :: "model \<Rightarrow> layer list"
where
  "tensor_layers (Input i nm s) = []"
| "tensor_layers (Apply l xs) = tensors_layers xs @ [l]"
| "tensor_layers (Call m xs k) = tensors_layers xs @ model_layers m"
| "tensor_layers (Const r) = []"
| "tensor_layers (Add a b) = tensor_layers a @ tensor_layers b"
| "tensor_layers (Sub a b) = tensor_layers a @ tensor_layers b"
| "tensor_layers (Mul a b) = tensor_layers a @ tensor_layers b"
| "tensor_layers (Square a) = tensor_layers a"
| "tensor_layers (Exp a) = tensor_layers a"
| "tensor_layers (Sum_last a) = tensor_layers a"
| "tensor_layers (Mean a) = tensor_layers a"
| "tensor_layers (MGNLL a b) = tensor_layers a @ tensor_layers b"
| "tensors_layers [] = []"
| "tensors_layers (t # ts) = tensor_layers t @ tensors_layers ts"
| "model_layers (Model nm ins outs ls) = tensors_layers outs @ tensors_layers ls"
| "model_layers (Sequential nm ls) = ls"

text \<open>
  The nodes of a composite graph: a tensor, its arguments, their arguments, and so on.
  A call of a nested model is one node; the model's internal tensors belong to the
  nested model, not to the graph that calls it.
\<close>

primrec subtensors :: "tensor \<Rightarrow> tensor list"
  and subtensors_list :: "tensor list \<Rightarrow> tensor list"
  and model_calls :: "model \<Rightarrow> tensor list"
where
  "subtensors (Input i nm s) = [Input i nm s]"
| "subtensors (Apply l xs) = Apply l xs # subtensors_list xs"
| "subtensors (Call m xs k) = Call m xs k # subtensors_list xs"
| "subtensors (Const r) = [Const r]"
| "subtensors (Add a b) = Add a b # subtensors a @ subtensors b"
| "subtensors (Sub a b) = Sub a b # subtensors a @ subtensors b"
| "subtensors (Mul a b) = Mul a b # subtensors a @ subtensors b"
| "subtensors (Square a) = Square a # subtensors a"
| "subtensors (Exp a) = Exp a # subtensors a"
| "subtensors (Sum_last a) = Sum_last a # subtensors a"
| "subtensors (Mean a) = Mean a # subtensors a"
| "subtensors (MGNLL a b) = MGNLL a b # subtensors a @ subtensors b"
| "subtensors_list [] = []"
| "subtensors_list (t # ts) = subtensors t @ subtensors_list ts"
| "model_calls (Model nm ins outs ls) = subtensors_list outs @ subtensors_list ls"
| "model_calls (Sequential nm ls) = []"

text \<open>The direct arguments of a node, and the model a node calls.\<close>

fun arguments :: "tensor \<Rightarrow> tensor list" where
  "arguments (Apply l xs) = xs"
| "arguments (Call m xs k) = xs"
| "arguments (Add a b) = [a, b]"
| "arguments (Sub a b) = [a, b]"
| "arguments (Mul a b) = [a, b]"
| "arguments (Square a) = [a]"
| "arguments (Exp a) = [a]"
| "arguments (Sum_last a) = [a]"
| "arguments (Mean a) = [a]"
| "arguments (MGNLL a b) = [a, b]"
| "arguments _ = []"

fun called_model :: "tensor \<Rightarrow> model option" where
  "called_model (Call m xs k) = Some m"
| "called_model _ = None"

fun is_output_of :: "model \<Rightarrow> nat \<Rightarrow> tensor \<Rightarrow> bool" where
  "is_output_of m k (Call m' xs k') = (m' = m \<and> k' = k)"
| "is_output_of m k _ = False"

fun is_MGNLL :: "tensor \<Rightarrow> bool" where
  "is_MGNLL (MGNLL a b) = True"
| "is_MGNLL _ = False"

text \<open>The layer-to-layer edges inside one model: \<open>(p, c)\<close> when layer \<open>c\<close> is applied to the
  output of layer \<open>p\<close>.\<close>

fun producer :: "tensor \<Rightarrow> layer list" where
  "producer (Apply l xs) = [l]"
| "producer _ = []"

primrec tensor_edges :: "tensor \<Rightarrow> (layer \<times> layer) list"
  and tensors_edges :: "tensor list \<Rightarrow> (layer \<times> layer) list"
  and model_edges :: "model \<Rightarrow> (layer \<times> layer) list"
where
  "tensor_edges (Input i nm s) = []"
| "tensor_edges (Apply l xs) = tensors_edges xs @ map (\<lambda>p. (p, l)) (concat (map producer xs))"
| "tensor_edges (Call m xs k) = tensors_edges xs"
| "tensor_edges (Const r) = []"
| "tensor_edges (Add a b) = tensor_edges a @ tensor_edges b"
| "tensor_edges (Sub a b) = tensor_edges a @ tensor_edges b"
| "tensor_edges (Mul a b) = tensor_edges a @ tensor_edges b"
| "tensor_edges (Square a) = tensor_edges a"
| "tensor_edges (Exp a) = tensor_edges a"
| "tensor_edges (Sum_last a) = tensor_edges a"
| "tensor_edges (Mean a) = tensor_edges a"
| "tensor_edges (MGNLL a b) = tensor_edges a @ tensor_edges b"
| "tensors_edges [] = []"
| "tensors_edges (t # ts) = tensor_edges t @ tensors_edges ts"
| "model_edges (Model nm ins outs ls) = tensors_edges outs"
| "model_edges (Sequential nm ls) = zip ls (tl ls)"

definition has_kernel :: "layer_config \<Rightarrow> bool" where
  "has_kernel c = (is_Conv2D c \<or> is_Conv2DTranspose c \<or> is_Dense c)"

definition kernel_layers :: "model \<Rightarrow> layer list" where
  "kernel_layers g = filter (\<lambda>l. has_kernel (config l)) (model_layers g)"

definition he_uniform_l2 :: "real \<Rightarrow> layer \<Rightarrow> bool" where
  "he_uniform_l2 wdecay l =
     (kernel_initializer (config l) = Some ''he_uniform'' \<and>
      kernel_regularizer (config l) = Some (l2 wdecay))"

text \<open>For each \<open>Dense\<close> layer of a model that feeds another layer: its units and the
  configuration of the layer it feeds.\<close>

definition dense_successors :: "model \<Rightarrow> (nat \<times> layer_config) list" where
  "dense_successors g =
     map (\<lambda>(p, c). (units (config p), config c))
       (filter (\<lambda>(p, c). is_Dense (config p)) (model_edges g))"

text \<open>The layers of a model that are applied directly to tensor \<open>t\<close>.\<close>

definition consumers_of :: "model \<Rightarrow> tensor \<Rightarrow> layer list" where
  "consumers_of g t = map snd (filter (\<lambda>(p, c). [p] = producer t) (model_edges g))"

subsection \<open>Static shapes\<close>

text \<open>
  Keras' shape rules for the layers the source uses, on per-sample shapes (the batch axis
  left out). A convolution with padding \<open>same\<close> and stride \<open>s\<close> maps a spatial extent \<open>n\<close>
  to \<open>\<lceil>n / s\<rceil>\<close>, a transposed one to \<open>n * s\<close>; \<open>strides\<close> defaults to 1 and \<open>padding\<close> to
  \<open>valid\<close>; \<open>Dense\<close> replaces the last axis by its units.
  A call of a model has the
  shape the model's own graph gives its output; the backend operations of the losses are
  given no static shape.
\<close>

definition ceil_div :: "nat \<Rightarrow> nat \<Rightarrow> nat" where
  "ceil_div n s = (n + s - 1) div s"

definition conv_extent :: "string option \<Rightarrow> nat \<Rightarrow> nat \<Rightarrow> nat \<Rightarrow> nat option" where
  "conv_extent pad k s n =
     (if s = 0 then None
      else if pad = Some ''same'' then Some (ceil_div n s)
      else if n < k then None else Some ((n - k) div s + 1))"

definition layer_shape :: "layer_config \<Rightarrow> nat list \<Rightarrow> nat list option" where
  "layer_shape c sh =
     (case c of
        Conv2D f k st pad a r i nm \<Rightarrow>
          (case sh of
             [h, w, ch] \<Rightarrow>
               (let s = (case st of None \<Rightarrow> 1 | Some s \<Rightarrow> s)
                in case (conv_extent pad k s h, conv_extent pad k s w) of
                     (Some h', Some w') \<Rightarrow> Some [h', w', f]
                   | _ \<Rightarrow> None)
           | _ \<Rightarrow> None)
      | Conv2DTranspose f k st pad a r i nm \<Rightarrow>
          (case sh of
             [h, w, ch] \<Rightarrow>
               (let s = (case st of None \<Rightarrow> 1 | Some s \<Rightarrow> s)
                in if pad = Some ''same'' then Some [h * s, w * s, f] else None)
           | _ \<Rightarrow> None)
      | Dense u a r i nm ish \<Rightarrow> (if sh = [] then None else Some (butlast sh @ [u]))
      | BatchNormalization mo ep \<Rightarrow> Some sh
      | LeakyReLU al \<Rightarrow> Some sh
      | Activation a \<Rightarrow> Some sh
      | Flatten \<Rightarrow> Some [prod_list sh]
      | Reshape t \<Rightarrow> (if prod_list t = prod_list sh then Some t else None)
      | Lambda out nm \<Rightarrow> Some out)"

fun layers_shape :: "layer list \<Rightarrow> nat list \<Rightarrow> nat list option" where
  "layers_shape [] sh = Some sh"
| "layers_shape (l # ls) sh =
     (case layer_shape (config l) sh of None \<Rightarrow> None | Some sh' \<Rightarrow> layers_shape ls sh')"

primrec tensor_shape :: "tensor \<Rightarrow> nat list option"
  and tensors_shape :: "tensor list \<Rightarrow> nat list list option"
  and model_shapes :: "model \<Rightarrow> nat list list option"
where
  "tensor_shape (Input i nm s) = Some s"
| "tensor_shape (Apply l xs) =
     (case tensors_shape xs of
        None \<Rightarrow> None
      | Some [] \<Rightarrow> None
      | Some (sh # shs) \<Rightarrow> layer_shape (config l) sh)"
| "tensor_shape (Call m xs k) =
     (case model_shapes m of
        None \<Rightarrow> None
      | Some outs \<Rightarrow> if k < length outs then Some (outs ! k) else None)"
| "tensor_shape (Const r) = None"
| "tensor_shape (Add a b) = None"
| "tensor_shape (Sub a b) = None"
| "tensor_shape (Mul a b) = None"
| "tensor_shape (Square a) = None"
| "tensor_shape (Exp a) = None"
| "tensor_shape (Sum_last a) = None"
| "tensor_shape (Mean a) = None"
| "tensor_shape (MGNLL a b) = None"
| "tensors_shape [] = Some []"
| "tensors_shape (t # ts) =
     (case tensor_shape t of
        None \<Rightarrow> None
      | Some sh \<Rightarrow> (case tensors_shape ts of None \<Rightarrow> None | Some shs \<Rightarrow> Some (sh # shs)))"
| "model_shapes (Model nm ins outs ls) = tensors_shape outs"
| "model_shapes (Sequential nm ls) =
     (case ls of
        [] \<Rightarrow> None
      | l # ls' \<Rightarrow>
          (case config l of
             Dense u a r i lnm (Some sh) \<Rightarrow> map_option (\<lambda>s. [s]) (layers_shape ls sh)
           | _ \<Rightarrow> None))"

section \<open>Running a graph\<close>

text \<open>
  Values are dense arrays of reals: a shape and the elements in row-major order. The
  arithmetic the source writes on backend tensors is elementwise; the only broadcasting
  it relies on is that of a scalar against an array. \<open>K.sum(., axis=-1)\<close> adds up the last
  axis, \<open>K.mean\<close> averages all elements and has no value on an empty array.
\<close>

datatype ndarray = NDArray (shape: "nat list") (data: "real list")

definition scalar :: "real \<Rightarrow> ndarray" where
  "scalar r = NDArray [] [r]"

definition well_shaped :: "ndarray \<Rightarrow> bool" where
  "well_shaped a = (length (data a) = prod_list (shape a))"

definition elementwise ::
  "(real \<Rightarrow> real \<Rightarrow> real) \<Rightarrow> ndarray \<Rightarrow> ndarray \<Rightarrow> ndarray option" where
  "elementwise f a b =
     (if shape a = shape b then Some (NDArray (shape a) (map2 f (data a) (data b)))
      else if shape a = [] then
        (case data a of [r] \<Rightarrow> Some (NDArray (shape b) (map (f r) (data b))) | _ \<Rightarrow> None)
      else if shape b = [] then
        (case data b of [r] \<Rightarrow> Some (NDArray (shape a) (map (\<lambda>v. f v r) (data a))) | _ \<Rightarrow> None)
      else None)"

definition K_exp :: "ndarray \<Rightarrow> ndarray" where
  "K_exp a = NDArray (shape a) (map exp (data a))"

definition K_square :: "ndarray \<Rightarrow> ndarray" where
  "K_square a = NDArray (shape a) (map (\<lambda>v. v * v) (data a))"

fun chunks :: "nat \<Rightarrow> nat \<Rightarrow> 'a list \<Rightarrow> 'a list list" where
  "chunks 0 d xs = []"
| "chunks (Suc n) d xs = take d xs # chunks n d (drop d xs)"

definition K_sum_last :: "ndarray \<Rightarrow> ndarray option" where
  "K_sum_last a =
     (if shape a = [] then None
      else Some (NDArray (butlast (shape a))
                  (map sum_list
                     (chunks (prod_list (butlast (shape a))) (last (shape a)) (data a)))))"

definition K_mean :: "ndarray \<Rightarrow> ndarray option" where
  "K_mean a =
     (if data a = [] then None
      else Some (scalar (sum_list (data a) / real (length (data a)))))"

text \<open>
  What the source takes from outside: the framework's layer kernels (a layer's
  configuration and weights applied to input values), the backend's normal noise, and the
  imported loss function. They are parameters of the semantics; \<open>'w\<close> is the type of a
  layer's weights.
\<close>

record 'w backend =
  layer_fn :: "layer_config \<Rightarrow> 'w \<Rightarrow> ndarray list \<Rightarrow> ndarray option"
  random_normal :: "nat list \<Rightarrow> ndarray"
  mean_gaussian_negative_log_likelihood :: "ndarray \<Rightarrow> ndarray \<Rightarrow> ndarray option"

text \<open>
  \<open>sampling(args)\<close>, the function wrapped by the \<open>sampler\<close> layer: \<open>batch\<close> and \<open>dim\<close> are
  the first two extents of \<open>z_mean\<close>, \<open>epsilon\<close> is a normal draw of shape \<open>(batch, dim)\<close>.
\<close>

definition sampling :: "(nat list \<Rightarrow> ndarray) \<Rightarrow> ndarray list \<Rightarrow> ndarray option" where
  "sampling rnd args =
     (case args of
        [z_mean, z_log_var] \<Rightarrow>
          (case shape z_mean of
             batch # dim' # _ \<Rightarrow>
               (let epsilon = rnd [batch, dim']
                in case elementwise (*) (scalar 0.5) z_log_var of
                     None \<Rightarrow> None
                   | Some h \<Rightarrow>
                       (case elementwise (*) (K_exp h) epsilon of
                          None \<Rightarrow> None
                        | Some s \<Rightarrow> elementwise (+) z_mean s))
           | _ \<Rightarrow> None)
      | _ \<Rightarrow> None)"

text \<open>Running a layer: the only \<open>Lambda\<close> layer of the source wraps \<open>sampling\<close>; every other
  layer is the framework's, with the weights of this layer object.\<close>

definition run_layer ::
  "'w backend \<Rightarrow> (nat \<Rightarrow> 'w) \<Rightarrow> layer \<Rightarrow> ndarray list \<Rightarrow> ndarray option" where
  "run_layer B W l vs =
     (case config l of
        Lambda out nm \<Rightarrow> sampling (random_normal B) vs
      | c \<Rightarrow> layer_fn B c (W (lid l)) vs)"

fun run_layers :: "'w backend \<Rightarrow> (nat \<Rightarrow> 'w) \<Rightarrow> layer list \<Rightarrow> ndarray \<Rightarrow> ndarray option" where
  "run_layers B W [] v = Some v"
| "run_layers B W (l # ls) v =
     (case run_layer B W l [v] of None \<Rightarrow> None | Some v' \<Rightarrow> run_layers B W ls v')"

fun bind_inputs :: "tensor list \<Rightarrow> ndarray list \<Rightarrow> nat \<Rightarrow> ndarray option" where
  "bind_inputs (Input i nm s # ins) (v # vs) = (bind_inputs ins vs)(i \<mapsto> v)"
| "bind_inputs _ _ = Map.empty"

definition lift2 ::
  "(ndarray \<Rightarrow> ndarray \<Rightarrow> ndarray option) \<Rightarrow> ndarray option \<Rightarrow> ndarray option \<Rightarrow> ndarray option"
  where
  "lift2 f a b =
     (case a of None \<Rightarrow> None | Some x \<Rightarrow> (case b of None \<Rightarrow> None | Some y \<Rightarrow> f x y))"

definition pick :: "nat \<Rightarrow> 'a list option \<Rightarrow> 'a option" where
  "pick k r = (case r of None \<Rightarrow> None | Some rs \<Rightarrow> if k < length rs then Some (rs ! k) else None)"

text \<open>
  \<open>eval B W t env\<close> is the value of tensor \<open>t\<close> under weights \<open>W\<close> when the placeholders
  hold \<open>env\<close>; \<open>run_model B W m vs\<close> is the list of outputs of model \<open>m\<close> on inputs \<open>vs\<close>. A
  nested model runs on its own placeholders, bound to the values of the call's arguments.
\<close>

primrec eval :: "'w backend \<Rightarrow> (nat \<Rightarrow> 'w) \<Rightarrow> tensor \<Rightarrow> (nat \<Rightarrow> ndarray option) \<Rightarrow> ndarray option"
  and eval_list ::
    "'w backend \<Rightarrow> (nat \<Rightarrow> 'w) \<Rightarrow> tensor list \<Rightarrow> (nat \<Rightarrow> ndarray option) \<Rightarrow> ndarray list option"
  and run_model :: "'w backend \<Rightarrow> (nat \<Rightarrow> 'w) \<Rightarrow> model \<Rightarrow> ndarray list \<Rightarrow> ndarray list option"
where
  "eval B W (Input i nm s) env = env i"
| "eval B W (Apply l xs) env =
     (case eval_list B W xs env of None \<Rightarrow> None | Some vs \<Rightarrow> run_layer B W l vs)"
| "eval B W (Call m xs k) env =
     (case eval_list B W xs env of None \<Rightarrow> None | Some vs \<Rightarrow> pick k (run_model B W m vs))"
| "eval B W (Const r) env = Some (scalar r)"
| "eval B W (Add a b) env = lift2 (elementwise (+)) (eval B W a env) (eval B W b env)"
| "eval B W (Sub a b) env = lift2 (elementwise (-)) (eval B W a env) (eval B W b env)"
| "eval B W (Mul a b) env = lift2 (elementwise (*)) (eval B W a env) (eval B W b env)"
| "eval B W (Square a) env = map_option K_square (eval B W a env)"
| "eval B W (Exp a) env = map_option K_exp (eval B W a env)"
| "eval B W (Sum_last a) env =
     (case eval B W a env of None \<Rightarrow> None | Some v \<Rightarrow> K_sum_last v)"
| "eval B W (Mean a) env = (case eval B W a env of None \<Rightarrow> None | Some v \<Rightarrow> K_mean v)"
| "eval B W (MGNLL a b) env =
     lift2 (mean_gaussian_negative_log_likelihood B) (eval B W a env) (eval B W b env)"
| "eval_list B W [] env = Some []"
| "eval_list B W (t # ts) env =
     (case eval B W t env of
        None \<Rightarrow> None
      | Some v \<Rightarrow> (case eval_list B W ts env of None \<Rightarrow> None | Some vs \<Rightarrow> Some (v # vs)))"
| "run_model B W (Model nm ins outs ls) vs =
     (if length ins = length vs then eval_list B W outs (bind_inputs ins vs) else None)"
| "run_model B W (Sequential nm ls) vs =
     (case vs of [v] \<Rightarrow> map_option (\<lambda>r. [r]) (run_layers B W ls v) | _ \<Rightarrow> None)"

section \<open>Predicates and quantities the claims speak of\<close>

text \<open>Two builds that differ in \<open>bn_mom\<close> and \<open>bn_eps\<close> only: corresponding layers are the
  same object and have the same configuration, unless both are batch normalisations built
  with the respective \<open>momentum\<close> and \<open>epsilon\<close>.\<close>

definition bn_frame :: "real \<Rightarrow> real \<Rightarrow> real \<Rightarrow> real \<Rightarrow> layer \<Rightarrow> layer \<Rightarrow> bool" where
  "bn_frame m e m' e' l l' =
     (lid l = lid l' \<and>
      (config l = config l' \<or>
       config l = BatchNormalization (Some m) (Some e) \<and>
       config l' = BatchNormalization (Some m') (Some e')))"

text \<open>The number of distinct batch-normalisation layers of a model built without arguments.\<close>

definition default_bn_count :: "model \<Rightarrow> nat" where
  "default_bn_count g =
     length (filter (\<lambda>l. config l = BatchNormalization None None) (remdups (model_layers g)))"

text \<open>An edge into a batch normalisation: after a \<open>Dense\<close> layer it is built without
  arguments, and otherwise it follows a convolution and is built with \<open>bn_mom\<close> and
  \<open>bn_eps\<close>.\<close>

definition bn_edge :: "real \<Rightarrow> real \<Rightarrow> layer \<times> layer \<Rightarrow> bool" where
  "bn_edge m e pc =
     (if \<not> is_BatchNormalization (config (snd pc)) then True
      else if is_Dense (config (fst pc)) then config (snd pc) = BatchNormalization None None
      else (is_Conv2D (config (fst pc)) \<or> is_Conv2DTranspose (config (fst pc))) \<and>
           config (snd pc) = BatchNormalization (Some m) (Some e))"

text \<open>A node that takes output 1 of model \<open>D\<close> among its direct arguments is a call of
  \<open>mean_gaussian_negative_log_likelihood\<close>.\<close>

definition feature_use :: "model \<Rightarrow> tensor \<Rightarrow> bool" where
  "feature_use D u = (if list_ex (is_output_of D 1) (arguments u) then is_MGNLL u else True)"

text \<open>A tensor that is output 0 of a call of \<open>D\<close> and has no output 1 of \<open>D\<close> among the
  nodes it is computed from.\<close>

definition score_only :: "model \<Rightarrow> tensor \<Rightarrow> bool" where
  "score_only D r = (is_output_of D 0 r \<and> \<not> list_ex (is_output_of D 1) (subtensors r))"

text \<open>The spec's formula for the KL divergence loss, on a batch of \<open>b\<close> samples of latent
  dimension \<open>d\<close> given in row-major order:
  \<open>mean(-0.5 * sum(1 + z_log_var - z_mean^2 - exp(z_log_var), axis=latent))\<close>.\<close>

definition kl_divergence :: "nat \<Rightarrow> nat \<Rightarrow> real list \<Rightarrow> real list \<Rightarrow> real" where
  "kl_divergence b d z_mean z_log_var =
     (\<Sum>i<b. - 0.5 * (\<Sum>j<d. 1 + z_log_var ! (i * d + j) - (z_mean ! (i * d + j))\<^sup>2
                               - exp (z_log_var ! (i * d + j)))) / real b"

text \<open>A node that calls a model calls one of the models \<open>gs\<close>.\<close>

definition calls_only :: "model list \<Rightarrow> tensor \<Rightarrow> bool" where
  "calls_only gs u = (case called_model u of None \<Rightarrow> True | Some g \<Rightarrow> g \<in> set gs)"

subsection \<open>Concrete inputs\<close>

text \<open>
  A small backend for running the graphs on concrete inputs. A layer's weight is an
  optional array: a layer with weight \<open>Some v\<close> returns \<open>v\<close>, a layer with weight \<open>None\<close>
  passes its single input through. The noise source is a parameter and the imported loss
  returns the constant 3. In \<open>demo_weights\<close> the two heads of the encoder (objects 29 and
  30) return the zero array of shape (1, 128) and every other layer passes its input on.
\<close>

definition demo_backend :: "(nat list \<Rightarrow> ndarray) \<Rightarrow> ndarray option backend" where
  "demo_backend rnd =
     \<lparr>layer_fn = (\<lambda>c w vs. case w of
                               Some v \<Rightarrow> Some v
                             | None \<Rightarrow> (case vs of [v] \<Rightarrow> Some v | _ \<Rightarrow> None)),
      random_normal = rnd,
      mean_gaussian_negative_log_likelihood = (\<lambda>a b. Some (scalar 3))\<rparr>"

definition constant_array :: "nat list \<Rightarrow> real \<Rightarrow> ndarray" where
  "constant_array sh r = NDArray sh (replicate (prod_list sh) r)"

definition demo_weights :: "nat \<Rightarrow> ndarray option" where
  "demo_weights =
     (\<lambda>i. None)(29 := Some (constant_array [1, latent_dim] 0),
                 30 := Some (constant_array [1, latent_dim] 0))"

text \<open>Concrete inputs for exercising the theorems: the graphs built with
  \<open>recon_vs_gan_weight = 1/2\<close> and the default \<open>wdecay\<close>, \<open>bn_mom\<close> and \<open>bn_eps\<close>, a noise source
  that returns ones, and the demo weights with the weight of decoder layer 3 changed.\<close>

definition default_build :: "model list" where
  "default_build = projr (create_models (1/2) (1/100000) (9/10) (1/1000000))"

definition unit_noise :: "nat list \<Rightarrow> ndarray" where
  "unit_noise s = constant_array s 1"

definition changed_weights :: "nat \<Rightarrow> ndarray option" where
  "changed_weights = demo_weights(3 := Some (scalar 7))"


section \<open>The graph that is built\<close>

text \<open>
  Names for the objects and tensors that \<open>create_models\<close> creates, with the object ids the
  construction hands out: the sampler is object 0, the decoder's layers are objects 1 to
  14, the encoder is built from counter 15 and the discriminator from counter 31, the
  placeholders \<open>x\<close> and \<open>z_p\<close> are objects 50 and 51. Lemma \<open>create_models_built\<close> below proves
  that \<open>create_models\<close> returns exactly \<open>built\<close>.
\<close>

definition the_sampler :: layer where
  "the_sampler = Layer 0 (Lambda [latent_dim] (Some ''sampler''))"

definition decoder_layers :: "real \<Rightarrow> real \<Rightarrow> real \<Rightarrow> layer list" where
  "decoder_layers wd m e =
     [Layer 1 (Dense n_decoder None (Some (l2 wd)) (Some ''he_uniform'') None (Some [latent_dim])),
      Layer 2 (BatchNormalization None None),
      Layer 3 (LeakyReLU leaky_relu_alpha),
      Layer 4 (Reshape decode_from_shape)]
     @ fst (conv_block_layers wd m e 256 True True 5)
     @ fst (conv_block_layers wd m e 128 True True 8)
     @ fst (conv_block_layers wd m e 32 True True 11)
     @ [Layer 14 (Conv2D n_channels 5 None (Some ''same'') (Some ''tanh'') (Some (l2 wd))
                   (Some ''he_uniform'') (Some ''output_image''))]"

definition the_decoder :: "real \<Rightarrow> real \<Rightarrow> real \<Rightarrow> model" where
  "the_decoder wd m e = Sequential ''decoder'' (decoder_layers wd m e)"

definition the_encoder :: "real \<Rightarrow> real \<Rightarrow> real \<Rightarrow> model" where
  "the_encoder wd m e = fst (create_encoder wd m e 15)"

definition the_discriminator :: "real \<Rightarrow> real \<Rightarrow> real \<Rightarrow> model" where
  "the_discriminator wd m e = fst (create_discriminator wd m e 31)"

definition x_input :: tensor where
  "x_input = Input 50 ''input_image'' image_shape"

definition z_p_input :: tensor where
  "z_p_input = Input 51 ''z_p'' [latent_dim]"

definition z_mean_tensor :: "real \<Rightarrow> real \<Rightarrow> real \<Rightarrow> tensor" where
  "z_mean_tensor wd m e = Call (the_encoder wd m e) [x_input] 0"

definition z_log_var_tensor :: "real \<Rightarrow> real \<Rightarrow> real \<Rightarrow> tensor" where
  "z_log_var_tensor wd m e = Call (the_encoder wd m e) [x_input] 1"

definition z_tensor :: "real \<Rightarrow> real \<Rightarrow> real \<Rightarrow> tensor" where
  "z_tensor wd m e = Apply the_sampler [z_mean_tensor wd m e, z_log_var_tensor wd m e]"

definition x_tilde_tensor :: "real \<Rightarrow> real \<Rightarrow> real \<Rightarrow> tensor" where
  "x_tilde_tensor wd m e = Call (the_decoder wd m e) [z_tensor wd m e] 0"

definition x_p_tensor :: "real \<Rightarrow> real \<Rightarrow> real \<Rightarrow> tensor" where
  "x_p_tensor wd m e = Call (the_decoder wd m e) [z_p_input] 0"

definition dis :: "real \<Rightarrow> real \<Rightarrow> real \<Rightarrow> tensor \<Rightarrow> nat \<Rightarrow> tensor" where
  "dis wd m e t k = Call (the_discriminator wd m e) [t] k"

definition dis_nll_loss_tensor :: "real \<Rightarrow> real \<Rightarrow> real \<Rightarrow> tensor" where
  "dis_nll_loss_tensor wd m e =
     MGNLL (dis wd m e x_input 1) (dis wd m e (x_tilde_tensor wd m e) 1)"

definition kl_loss_tensor :: "real \<Rightarrow> real \<Rightarrow> real \<Rightarrow> tensor" where
  "kl_loss_tensor wd m e =
     Mean (Mul (Const (- 0.5))
       (Sum_last (Sub (Sub (Add (Const 1) (z_log_var_tensor wd m e))
                           (Square (z_mean_tensor wd m e)))
                      (Exp (z_log_var_tensor wd m e)))))"

definition built :: "real \<Rightarrow> real \<Rightarrow> real \<Rightarrow> real \<Rightarrow> model list" where
  "built w wd m e =
     [the_encoder wd m e, the_decoder wd m e, the_discriminator wd m e,
      Model ''e'' [x_input] [dis wd m e (x_tilde_tensor wd m e) 1]
        [kl_loss_tensor wd m e, dis_nll_loss_tensor wd m e],
      Model ''de'' [x_input, z_p_input]
        [dis wd m e (x_tilde_tensor wd m e) 0, dis wd m e (x_p_tensor wd m e) 0]
        [Mul (Const (w / (1 - w))) (dis_nll_loss_tensor wd m e)],
      Model ''di'' [x_input, z_p_input]
        [dis wd m e x_input 0, dis wd m e (x_tilde_tensor wd m e) 0,
         dis wd m e (x_p_tensor wd m e) 0] [],
      Model ''vae'' [x_input] [x_tilde_tensor wd m e] [],
      Model ''vaegan'' [x_input] [dis wd m e (x_tilde_tensor wd m e) 0] []]"

section \<open>The construction, unfolded\<close>

lemmas const_defs = image_shape_def n_channels_def n_encoder_def n_discriminator_def
  latent_dim_def decode_from_shape_def n_decoder_def leaky_relu_alpha_def

lemmas graph_defs = the_sampler_def decoder_layers_def the_decoder_def the_encoder_def
  the_discriminator_def x_input_def z_p_input_def z_mean_tensor_def z_log_var_tensor_def
  z_tensor_def x_tilde_tensor_def x_p_tensor_def dis_def dis_nll_loss_tensor_def
  kl_loss_tensor_def

lemmas build_defs = create_encoder_def create_discriminator_def conv_block_def
  conv_block_layers_def new_layer_def new_input_def call_model_def add_loss_def py_div_def
  const_defs Let_def

lemma create_models_built:
  assumes "w \<noteq> 1"
  shows "create_models w wd m e = Inr (built w wd m e)"
  using assms by (simp add: create_models_def built_def graph_defs build_defs)

lemma create_models_one: "create_models 1 wd m e = Inl ZeroDivisionError"
  by (simp add: create_models_def build_defs)

lemma create_models_Inr:
  assumes "create_models w wd m e = Inr ms"
  shows "w \<noteq> 1 \<and> ms = built w wd m e"
proof (cases "w = 1")
  case True
  with assms show ?thesis by (simp add: create_models_one)
next
  case False
  with assms show ?thesis by (simp add: create_models_built)
qed

subsection \<open>Names, signatures and shapes of the returned graphs\<close>

lemma built_length: "length (built w wd m e) = 8"
  by (simp add: built_def)

lemma built_0: "built w wd m e ! 0 = the_encoder wd m e"
  by (simp add: built_def)

lemma built_1: "built w wd m e ! 1 = the_decoder wd m e"
  by (simp add: built_def)

lemma built_Suc_0: "built w wd m e ! Suc 0 = the_decoder wd m e"
  by (simp add: built_def)

lemma built_2: "built w wd m e ! 2 = the_discriminator wd m e"
  by (simp add: built_def)

lemma built_3:
  "built w wd m e ! 3 =
     Model ''e'' [x_input] [dis wd m e (x_tilde_tensor wd m e) 1]
       [kl_loss_tensor wd m e, dis_nll_loss_tensor wd m e]"
  by (simp add: built_def)

lemma built_4:
  "built w wd m e ! 4 =
     Model ''de'' [x_input, z_p_input]
       [dis wd m e (x_tilde_tensor wd m e) 0, dis wd m e (x_p_tensor wd m e) 0]
       [Mul (Const (w / (1 - w))) (dis_nll_loss_tensor wd m e)]"
  by (simp add: built_def)

lemma built_5:
  "built w wd m e ! 5 =
     Model ''di'' [x_input, z_p_input]
       [dis wd m e x_input 0, dis wd m e (x_tilde_tensor wd m e) 0,
        dis wd m e (x_p_tensor wd m e) 0] []"
  by (simp add: built_def)

lemma built_6: "built w wd m e ! 6 = Model ''vae'' [x_input] [x_tilde_tensor wd m e] []"
  by (simp add: built_def)

lemma built_7:
  "built w wd m e ! 7 = Model ''vaegan'' [x_input] [dis wd m e (x_tilde_tensor wd m e) 0] []"
  by (simp add: built_def)

lemma mname_the_encoder: "mname (the_encoder wd m e) = ''encoder''"
  by (simp add: the_encoder_def build_defs)

lemma mname_the_decoder: "mname (the_decoder wd m e) = ''decoder''"
  by (simp add: the_decoder_def)

lemma mname_the_discriminator: "mname (the_discriminator wd m e) = ''discriminator''"
  by (simp add: the_discriminator_def build_defs)

lemma built_names:
  "map mname (built w wd m e) =
     [''encoder'', ''decoder'', ''discriminator'', ''e'', ''de'', ''di'', ''vae'', ''vaegan'']"
  by (simp add: built_def mname_the_encoder mname_the_decoder mname_the_discriminator)

lemma built_signatures:
  "map (\<lambda>g. (length (inputs g), length (outputs g))) (drop 3 (built w wd m e)) =
     [(1, 1), (2, 2), (2, 3), (1, 1), (1, 1)]"
  by (simp add: built_def)

lemma encoder_shapes: "model_shapes (the_encoder wd m e) = Some [[128], [128]]"
  by (simp add: the_encoder_def build_defs layer_shape_def conv_extent_def ceil_div_def)

lemma decoder_shapes: "model_shapes (the_decoder wd m e) = Some [[64, 64, 3]]"
  by (simp add: the_decoder_def decoder_layers_def build_defs layer_shape_def conv_extent_def ceil_div_def)

lemma discriminator_shapes: "model_shapes (the_discriminator wd m e) = Some [[1], [8, 8, 256]]"
  by (simp add: the_discriminator_def build_defs layer_shape_def conv_extent_def ceil_div_def)

lemma built_shapes:
  "map model_shapes (built w wd m e) =
     [Some [[128], [128]], Some [[64, 64, 3]], Some [[1], [8, 8, 256]], Some [[8, 8, 256]],
      Some [[1], [1]], Some [[1], [1], [1]], Some [[64, 64, 3]], Some [[1]]]"
  by (simp add: built_def encoder_shapes decoder_shapes discriminator_shapes dis_def
      x_tilde_tensor_def x_p_tensor_def)

lemma default_build_eq: "default_build = built (1/2) (1/100000) (9/10) (1/1000000)"
  by (simp add: default_build_def create_models_built)

lemma create_models_default:
  "create_models (1/2) (1/100000) (9/10) (1/1000000) = Inr default_build"
  by (simp add: default_build_def create_models_built)

section \<open>Arithmetic on arrays\<close>

lemma elementwise_same_shape:
  "shape a = shape b \<Longrightarrow>
     elementwise f a b = Some (NDArray (shape a) (map2 f (data a) (data b)))"
  by (simp add: elementwise_def)

lemma elementwise_scalar_left:
  "shape b \<noteq> [] \<Longrightarrow>
     elementwise f (scalar r) b = Some (NDArray (shape b) (map (f r) (data b)))"
  by (auto simp add: elementwise_def scalar_def)

lemma elementwise_scalars: "elementwise f (scalar r) (scalar s) = Some (scalar (f r s))"
  by (simp add: elementwise_def scalar_def)

lemma sum_list_take_nth: "d \<le> length xs \<Longrightarrow> sum_list (take d xs) = (\<Sum>j<d. xs ! j)"
proof (induction d)
  case 0
  then show ?case by simp
next
  case (Suc d)
  then show ?case by (simp add: take_Suc_conv_app_nth)
qed

lemma chunks_sums:
  "length xs = n * d \<Longrightarrow>
     map sum_list (chunks n d xs) = map (\<lambda>i. \<Sum>j<d. xs ! (i * d + j)) [0..<n]"
proof (induction n arbitrary: xs)
  case 0
  then show ?case by simp
next
  case (Suc n)
  have len: "length (drop d xs) = n * d"
    using Suc.prems by simp
  have hd: "sum_list (take d xs) = (\<Sum>j<d. xs ! j)"
    using Suc.prems by (intro sum_list_take_nth) simp
  have tl: "map sum_list (chunks n d (drop d xs)) =
              map (\<lambda>i. \<Sum>j<d. xs ! (Suc i * d + j)) [0..<n]"
  proof -
    have "map sum_list (chunks n d (drop d xs)) =
            map (\<lambda>i. \<Sum>j<d. drop d xs ! (i * d + j)) [0..<n]"
      by (rule Suc.IH [OF len])
    also have "\<dots> = map (\<lambda>i. \<Sum>j<d. xs ! (Suc i * d + j)) [0..<n]"
    proof (rule map_cong [OF refl])
      fix i assume "i \<in> set [0..<n]"
      then have i: "i < n" by simp
      have "\<And>j. j < d \<Longrightarrow> drop d xs ! (i * d + j) = xs ! (Suc i * d + j)"
      proof -
        fix j assume "j < d"
        have "d + (i * d + j) \<le> length xs"
        proof -
          have "Suc i * d \<le> n * d" using i by (intro mult_le_mono1) simp
          then show ?thesis using Suc.prems \<open>j < d\<close> by simp
        qed
        then show "drop d xs ! (i * d + j) = xs ! (Suc i * d + j)"
          by (simp add: add.commute add.left_commute)
      qed
      then show "(\<Sum>j<d. drop d xs ! (i * d + j)) = (\<Sum>j<d. xs ! (Suc i * d + j))"
        by simp
    qed
    finally show ?thesis .
  qed
  have "[0..<Suc n] = 0 # map Suc [0..<n]"
    by (simp add: upt_conv_Cons map_Suc_upt del: upt_Suc)
  then show ?case
    using hd tl by (simp add: comp_def del: upt_Suc)
qed

lemma sum_list_upt: "sum_list (map f [0..<n]) = (\<Sum>i<n. f i)"
  by (simp add: interv_sum_list_conv_sum_set_nat atLeast0LessThan)

lemma kl_divergence_zero:
  assumes "\<forall>v \<in> set zm. v = 0" and "\<forall>v \<in> set zlv. v = 0"
    and "length zm = b * d" and "length zlv = b * d"
  shows "kl_divergence b d zm zlv = 0"
proof -
  have idx: "\<And>i j. i < b \<Longrightarrow> j < d \<Longrightarrow> i * d + j < b * d"
  proof -
    fix i j assume "i < b" and "j < d"
    then have "Suc i * d \<le> b * d" by (intro mult_le_mono1) simp
    then show "i * d + j < b * d" using \<open>j < d\<close> by simp
  qed
  have z: "\<And>i j. i < b \<Longrightarrow> j < d \<Longrightarrow> zm ! (i * d + j) = 0 \<and> zlv ! (i * d + j) = 0"
    using assms idx by (metis nth_mem)
  have "(\<Sum>i<b. - 0.5 * (\<Sum>j<d. 1 + zlv ! (i * d + j) - (zm ! (i * d + j))\<^sup>2
                               - exp (zlv ! (i * d + j)))) = (\<Sum>i<b. 0::real)"
  proof (rule sum.cong [OF refl])
    fix i assume "i \<in> {..<b}"
    then have i: "i < b" by simp
    have "(\<Sum>j<d. 1 + zlv ! (i * d + j) - (zm ! (i * d + j))\<^sup>2 - exp (zlv ! (i * d + j)))
            = (\<Sum>j<d. 0::real)"
      using z [OF i] by (intro sum.cong refl) simp
    then show "- 0.5 * (\<Sum>j<d. 1 + zlv ! (i * d + j) - (zm ! (i * d + j))\<^sup>2
                               - exp (zlv ! (i * d + j))) = 0"
      by simp
  qed
  then show ?thesis
    by (simp add: kl_divergence_def)
qed

lemma sampling_value:
  assumes "shape zm = [b, d]" and "shape zlv = [b, d]" and "shape (rnd [b, d]) = [b, d]"
  shows "sampling rnd [zm, zlv] =
           Some (NDArray [b, d]
                  (map2 (+) (data zm)
                     (map2 (*) (map exp (map ((*) 0.5) (data zlv))) (data (rnd [b, d])))))"
  using assms
  by (simp add: sampling_def elementwise_scalar_left elementwise_same_shape K_exp_def Let_def)

section \<open>Running the built graph\<close>

lemma run_layers_cong:
  assumes "\<forall>l \<in> set ls. \<forall>vs. run_layer B' W' l vs = run_layer B W l vs"
  shows "run_layers B' W' ls v = run_layers B W ls v"
  using assms by (induction ls arbitrary: v) (simp_all split: option.splits)

lemma eval_cong_layers:
  fixes B B' :: "'w backend"
  assumes nll: "mean_gaussian_negative_log_likelihood B' = mean_gaussian_negative_log_likelihood B"
  shows "((\<forall>l \<in> set (tensor_layers t). \<forall>vs. run_layer B' W' l vs = run_layer B W l vs) \<longrightarrow>
           (\<forall>env. eval B' W' t env = eval B W t env)) \<and>
         ((\<forall>l \<in> set (model_layers g). \<forall>vs. run_layer B' W' l vs = run_layer B W l vs) \<longrightarrow>
           (\<forall>vs. run_model B' W' g vs = run_model B W g vs)) \<and>
         ((\<forall>l \<in> set (tensors_layers ts). \<forall>vs. run_layer B' W' l vs = run_layer B W l vs) \<longrightarrow>
           (\<forall>env. eval_list B' W' ts env = eval_list B W ts env))"
proof (rule eval_eval_list_run_model.induct)
  fix nm ls
  show "(\<forall>l \<in> set (model_layers (Sequential nm ls)).
            \<forall>vs. run_layer B' W' l vs = run_layer B W l vs) \<longrightarrow>
        (\<forall>vs. run_model B' W' (Sequential nm ls) vs = run_model B W (Sequential nm ls) vs)"
  proof (intro impI allI)
    fix vs
    assume "\<forall>l \<in> set (model_layers (Sequential nm ls)).
              \<forall>vs. run_layer B' W' l vs = run_layer B W l vs"
    then have "\<forall>l \<in> set ls. \<forall>vs. run_layer B' W' l vs = run_layer B W l vs"
      by simp
    then have "\<And>v. run_layers B' W' ls v = run_layers B W ls v"
      by (rule run_layers_cong)
    then show "run_model B' W' (Sequential nm ls) vs = run_model B W (Sequential nm ls) vs"
      by (simp split: list.splits)
  qed
qed (auto simp add: nll ball_Un split: option.splits)

lemma run_model_cong:
  fixes B B' :: "'w backend"
  assumes "mean_gaussian_negative_log_likelihood B' = mean_gaussian_negative_log_likelihood B"
    and "\<forall>l \<in> set (model_layers g). \<forall>vs. run_layer B' W' l vs = run_layer B W l vs"
  shows "run_model B' W' g vs = run_model B W g vs"
  using eval_cong_layers [OF assms(1), of "Const 0" W' W g "[]"] assms(2) by blast

lemma eval_cong:
  fixes B B' :: "'w backend"
  assumes "mean_gaussian_negative_log_likelihood B' = mean_gaussian_negative_log_likelihood B"
    and "\<forall>l \<in> set (tensor_layers t). \<forall>vs. run_layer B' W' l vs = run_layer B W l vs"
  shows "eval B' W' t env = eval B W t env"
  using eval_cong_layers [OF assms(1), of t W' W "Sequential [] []" "[]"] assms(2) by blast

lemma run_layer_weights:
  "W' (lid l) = W (lid l) \<Longrightarrow> run_layer B W' l vs = run_layer B W l vs"
  by (simp add: run_layer_def split: layer_config.splits)

lemma run_layer_noise:
  "\<not> is_Lambda (config l) \<Longrightarrow>
     run_layer (B\<lparr>random_normal := r\<rparr>) W l vs = run_layer B W l vs"
  by (cases "config l") (simp_all add: run_layer_def)

subsection \<open>The tensors of the built graph\<close>

lemma eval_kl:
  assumes zm: "eval B W zm_t env = Some zm" and zlv: "eval B W zlv_t env = Some zlv"
    and "shape zm = [b, d]" and "length (data zm) = b * d"
    and "shape zlv = [b, d]" and "length (data zlv) = b * d" and "0 < b"
  shows "eval B W (Mean (Mul (Const (- 0.5))
            (Sum_last (Sub (Sub (Add (Const 1) zlv_t) (Square zm_t)) (Exp zlv_t))))) env =
         Some (scalar (kl_divergence b d (data zm) (data zlv)))"
proof -
  let ?D = "map2 (-) (map2 (-) (map ((+) 1) (data zlv)) (map (\<lambda>v. v * v) (data zm)))
              (map exp (data zlv))"
  let ?R = "map (\<lambda>i. \<Sum>j<d. 1 + data zlv ! (i * d + j) - (data zm ! (i * d + j))\<^sup>2
                           - exp (data zlv ! (i * d + j))) [0..<b]"
  have lenD: "length ?D = b * d"
    using assms by simp
  have nthD: "\<And>k. k < b * d \<Longrightarrow>
      ?D ! k = 1 + data zlv ! k - (data zm ! k)\<^sup>2 - exp (data zlv ! k)"
    using assms by (simp add: power2_eq_square)
  have inner: "eval B W (Sub (Sub (Add (Const 1) zlv_t) (Square zm_t)) (Exp zlv_t)) env =
      Some (NDArray [b, d] ?D)"
    using assms
    by (simp add: lift2_def elementwise_scalar_left elementwise_same_shape K_square_def K_exp_def)
  have idx: "\<And>i j. i < b \<Longrightarrow> j < d \<Longrightarrow> i * d + j < b * d"
  proof -
    fix i j assume "i < b" and "j < d"
    then have "Suc i * d \<le> b * d" by (intro mult_le_mono1) simp
    then show "i * d + j < b * d" using \<open>j < d\<close> by simp
  qed
  have rows: "map (\<lambda>i. \<Sum>j<d. ?D ! (i * d + j)) [0..<b] = ?R"
  proof (rule map_cong [OF refl])
    fix i assume "i \<in> set [0..<b]"
    then have "i < b" by simp
    then show "(\<Sum>j<d. ?D ! (i * d + j)) =
       (\<Sum>j<d. 1 + data zlv ! (i * d + j) - (data zm ! (i * d + j))\<^sup>2
                    - exp (data zlv ! (i * d + j)))"
      using idx nthD by (intro sum.cong refl) simp
  qed
  have sums: "K_sum_last (NDArray [b, d] ?D) = Some (NDArray [b] ?R)"
    using chunks_sums [OF lenD] rows by (simp add: K_sum_last_def)
  have summed: "eval B W (Sum_last (Sub (Sub (Add (Const 1) zlv_t) (Square zm_t)) (Exp zlv_t))) env
      = Some (NDArray [b] ?R)"
    using inner sums by simp
  have scaled: "eval B W (Mul (Const (- 0.5))
       (Sum_last (Sub (Sub (Add (Const 1) zlv_t) (Square zm_t)) (Exp zlv_t)))) env =
      Some (NDArray [b] (map ((*) (- 0.5)) ?R))"
    using summed by (simp add: lift2_def elementwise_scalar_left)
  have mean: "K_mean (NDArray [b] (map ((*) (- 0.5)) ?R)) =
      Some (scalar (kl_divergence b d (data zm) (data zlv)))"
    using \<open>0 < b\<close>
    by (simp add: K_mean_def kl_divergence_def sum_list_upt comp_def del: upt_Suc)
  show ?thesis
    using scaled mean by simp
qed

lemma eval_scaled:
  assumes "eval B W t env = Some (scalar L)"
  shows "eval B W (Mul (Const c) t) env = Some (scalar (c * L))"
  using assms by (simp add: lift2_def elementwise_scalars)

lemma eval_x_input: "eval B W x_input env = env 50"
  by (simp add: x_input_def)

lemma eval_z_p_input: "eval B W z_p_input env = env 51"
  by (simp add: z_p_input_def)

lemma bind_x_input: "bind_inputs [x_input] [img] = [50 \<mapsto> img]"
  by (simp add: x_input_def)

lemma eval_z_mean:
  assumes "env 50 = Some img" and "run_model B W (the_encoder wd m e) [img] = Some [zm, zlv]"
  shows "eval B W (z_mean_tensor wd m e) env = Some zm"
    and "eval B W (z_log_var_tensor wd m e) env = Some zlv"
  using assms by (simp_all add: z_mean_tensor_def z_log_var_tensor_def eval_x_input pick_def)

lemma eval_x_tilde:
  "eval B W (x_tilde_tensor wd m e) env =
     Option.bind (eval B W (z_tensor wd m e) env)
       (\<lambda>zv. pick 0 (run_model B W (the_decoder wd m e) [zv]))"
  by (cases "eval B W (z_tensor wd m e) env") (simp_all add: x_tilde_tensor_def)

lemma eval_x_p:
  "eval B W (x_p_tensor wd m e) env =
     Option.bind (env 51) (\<lambda>zv. pick 0 (run_model B W (the_decoder wd m e) [zv]))"
  by (cases "env 51") (simp_all add: x_p_tensor_def z_p_input_def)

lemma eval_dis:
  "eval B W (dis wd m e t k) env =
     Option.bind (eval B W t env) (\<lambda>v. pick k (run_model B W (the_discriminator wd m e) [v]))"
  by (cases "eval B W t env") (simp_all add: dis_def)

subsection \<open>Which layers a change of weights or of noise reaches\<close>

lemma composite_defs_layers:
  "tensor_layers x_input = []" "tensor_layers z_p_input = []"
  "tensor_layers (z_tensor wd m e) =
     model_layers (the_encoder wd m e) @ model_layers (the_encoder wd m e) @ [the_sampler]"
  "tensor_layers (x_tilde_tensor wd m e) =
     tensor_layers (z_tensor wd m e) @ model_layers (the_decoder wd m e)"
  "tensor_layers (x_p_tensor wd m e) = model_layers (the_decoder wd m e)"
  "tensor_layers (dis wd m e t k) = tensor_layers t @ model_layers (the_discriminator wd m e)"
  by (simp_all add: x_input_def z_p_input_def z_tensor_def z_mean_tensor_def
      z_log_var_tensor_def x_tilde_tensor_def x_p_tensor_def dis_def)

lemma enc_lids: "list_all (\<lambda>l. 16 \<le> lid l \<and> lid l \<le> 30) (model_layers (the_encoder wd m e))"
  by (simp add: the_encoder_def build_defs)

lemma dec_lids: "list_all (\<lambda>l. 1 \<le> lid l \<and> lid l \<le> 14) (model_layers (the_decoder wd m e))"
  by (simp add: the_decoder_def decoder_layers_def build_defs)

lemma disc_lids:
  "list_all (\<lambda>l. 32 \<le> lid l \<and> lid l \<le> 49) (model_layers (the_discriminator wd m e))"
  by (simp add: the_discriminator_def build_defs)

lemma base_lids_disjoint:
  "lid ` set (model_layers (the_encoder wd m e)) \<inter>
     lid ` set (model_layers (the_decoder wd m e)) = {}"
  "lid ` set (model_layers (the_encoder wd m e)) \<inter>
     lid ` set (model_layers (the_discriminator wd m e)) = {}"
  "lid ` set (model_layers (the_decoder wd m e)) \<inter>
     lid ` set (model_layers (the_discriminator wd m e)) = {}"
  "lid the_sampler \<notin> lid ` set (model_layers (the_decoder wd m e))"
  using enc_lids [of wd m e] dec_lids [of wd m e] disc_lids [of wd m e]
  by (fastforce simp add: list_all_iff the_sampler_def)+

lemma base_no_lambda:
  "list_all (\<lambda>l. \<not> is_Lambda (config l)) (model_layers (the_encoder wd m e))"
  "list_all (\<lambda>l. \<not> is_Lambda (config l)) (model_layers (the_decoder wd m e))"
  "list_all (\<lambda>l. \<not> is_Lambda (config l)) (model_layers (the_discriminator wd m e))"
  by (simp_all add: the_encoder_def the_decoder_def decoder_layers_def the_discriminator_def
      build_defs)

text \<open>Changing weights of decoder layers only leaves the encoder, the sampler and the
  discriminator as they were.\<close>

lemma frame_discriminator:
  assumes "\<forall>i. i \<notin> lid ` set (model_layers (the_decoder wd m e)) \<longrightarrow> W' i = W i"
  shows "run_model B W' (the_discriminator wd m e) vs =
         run_model B W (the_discriminator wd m e) vs"
proof (rule run_model_cong [OF refl], intro ballI allI)
  fix l vs' assume "l \<in> set (model_layers (the_discriminator wd m e))"
  then have "lid l \<notin> lid ` set (model_layers (the_decoder wd m e))"
    using base_lids_disjoint(3) [of wd m e] by blast
  then show "run_layer B W' l vs' = run_layer B W l vs'"
    using assms by (intro run_layer_weights) simp
qed

lemma frame_latent:
  assumes "\<forall>i. i \<notin> lid ` set (model_layers (the_decoder wd m e)) \<longrightarrow> W' i = W i"
  shows "eval B W' (z_tensor wd m e) env = eval B W (z_tensor wd m e) env"
proof (rule eval_cong [OF refl], intro ballI allI)
  fix l vs' assume "l \<in> set (tensor_layers (z_tensor wd m e))"
  then have "l \<in> set (model_layers (the_encoder wd m e)) \<or> l = the_sampler"
    by (auto simp add: composite_defs_layers)
  then have "lid l \<notin> lid ` set (model_layers (the_decoder wd m e))"
    using base_lids_disjoint(1,4) [of wd m e] by blast
  then show "run_layer B W' l vs' = run_layer B W l vs'"
    using assms by (intro run_layer_weights) simp
qed

lemma noise_encoder:
  "run_model (B\<lparr>random_normal := r\<rparr>) W (the_encoder wd m e) vs =
   run_model B W (the_encoder wd m e) vs"
proof (rule run_model_cong, simp, intro ballI allI)
  fix l vs' assume "l \<in> set (model_layers (the_encoder wd m e))"
  then have "\<not> is_Lambda (config l)"
    using base_no_lambda(1) [of wd m e] by (simp add: list_all_iff)
  then show "run_layer (B\<lparr>random_normal := r\<rparr>) W l vs' = run_layer B W l vs'"
    by (rule run_layer_noise)
qed

lemma noise_decoder:
  "run_model (B\<lparr>random_normal := r\<rparr>) W (the_decoder wd m e) vs =
   run_model B W (the_decoder wd m e) vs"
proof (rule run_model_cong, simp, intro ballI allI)
  fix l vs' assume "l \<in> set (model_layers (the_decoder wd m e))"
  then have "\<not> is_Lambda (config l)"
    using base_no_lambda(2) [of wd m e] by (simp add: list_all_iff)
  then show "run_layer (B\<lparr>random_normal := r\<rparr>) W l vs' = run_layer B W l vs'"
    by (rule run_layer_noise)
qed

lemma eval_z_tensor:
  assumes "env 50 = Some img" and "run_model B W (the_encoder wd m e) [img] = Some [zm, zlv]"
  shows "eval (B\<lparr>random_normal := r\<rparr>) W (z_tensor wd m e) env = sampling r [zm, zlv]"
proof -
  have enc: "run_model (B\<lparr>random_normal := r\<rparr>) W (the_encoder wd m e) [img] = Some [zm, zlv]"
    using assms(2) by (simp add: noise_encoder)
  have "eval (B\<lparr>random_normal := r\<rparr>) W (z_mean_tensor wd m e) env = Some zm"
    and "eval (B\<lparr>random_normal := r\<rparr>) W (z_log_var_tensor wd m e) env = Some zlv"
    using eval_z_mean [of env img "B\<lparr>random_normal := r\<rparr>" W wd m e zm zlv] assms(1) enc
    by simp_all
  then show ?thesis
    by (simp add: z_tensor_def the_sampler_def run_layer_def)
qed

lemma run_vae:
  assumes "run_model B W (the_encoder wd m e) [img] = Some [zm, zlv]"
  shows "run_model (B\<lparr>random_normal := r\<rparr>) W (built w wd m e ! 6) [img] =
           Option.bind (sampling r [zm, zlv])
             (\<lambda>zv. map_option (\<lambda>v. [v]) (pick 0 (run_model B W (the_decoder wd m e) [zv])))"
proof -
  have env: "bind_inputs [x_input] [img] 50 = Some img"
    by (simp add: bind_x_input)
  have z: "eval (B\<lparr>random_normal := r\<rparr>) W (z_tensor wd m e) (bind_inputs [x_input] [img]) =
             sampling r [zm, zlv]"
    using eval_z_tensor [of "bind_inputs [x_input] [img]" img B W wd m e zm zlv r] env assms
    by simp
  show ?thesis
    by (cases "sampling r [zm, zlv]")
      (simp_all add: built_6 eval_x_tilde z noise_decoder split: option.splits)
qed

lemma sampling_onto:
  assumes "shape zm = [b, d]" and "length (data zm) = b * d"
    and "shape zlv = [b, d]" and "length (data zlv) = b * d"
    and "shape z = [b, d]" and "length (data z) = b * d"
  shows "\<exists>eps. sampling (\<lambda>s. eps) [zm, zlv] = Some z"
proof -
  let ?E = "map2 (\<lambda>zv (mu, v). (zv - mu) / exp (0.5 * v)) (data z) (zip (data zm) (data zlv))"
  let ?eps = "NDArray [b, d] ?E"
  have lenE: "length ?E = b * d"
    using assms by simp
  have data: "map2 (+) (data zm) (map2 (*) (map exp (map ((*) 0.5) (data zlv))) ?E) = data z"
  proof (rule nth_equalityI)
    show "length (map2 (+) (data zm) (map2 (*) (map exp (map ((*) 0.5) (data zlv))) ?E)) =
          length (data z)"
      using assms by simp
  next
    fix k assume "k < length (map2 (+) (data zm) (map2 (*) (map exp (map ((*) 0.5) (data zlv))) ?E))"
    then have k: "k < b * d"
      using assms by simp
    then show "map2 (+) (data zm) (map2 (*) (map exp (map ((*) 0.5) (data zlv))) ?E) ! k =
               data z ! k"
      using assms by simp
  qed
  have "sampling (\<lambda>s. ?eps) [zm, zlv] =
          Some (NDArray [b, d]
                 (map2 (+) (data zm) (map2 (*) (map exp (map ((*) 0.5) (data zlv))) ?E)))"
    using sampling_value [of zm b d zlv "\<lambda>s. ?eps"] assms by simp
  also have "\<dots> = Some z"
    unfolding data using assms(5) by (cases z) simp
  finally show ?thesis by blast
qed

subsection \<open>The demo backend\<close>

lemma demo_encoder:
  "run_model (demo_backend rnd) demo_weights (the_encoder wd m e) [img] =
     Some [constant_array [1, latent_dim] 0, constant_array [1, latent_dim] 0]"
  by (simp add: the_encoder_def build_defs run_layer_def demo_backend_def demo_weights_def)

lemma demo_decoder:
  "run_model (demo_backend rnd) demo_weights (the_decoder wd m e) [v] = Some [v]"
  by (simp add: the_decoder_def decoder_layers_def build_defs run_layer_def demo_backend_def
      demo_weights_def)

lemma demo_discriminator:
  "run_model (demo_backend rnd) demo_weights (the_discriminator wd m e) [v] = Some [v, v]"
  by (simp add: the_discriminator_def build_defs run_layer_def demo_backend_def
      demo_weights_def)

lemma constant_array_shape [simp]: "shape (constant_array sh r) = sh"
  by (simp add: constant_array_def)

lemma constant_array_length:
  "length (data (constant_array [b, d] r)) = b * d"
  by (simp add: constant_array_def)

lemma demo_nll:
  assumes "env 50 = Some img" and "shape (rnd [1, latent_dim]) = [1, latent_dim]"
  shows "eval (demo_backend rnd) demo_weights (dis_nll_loss_tensor wd m e) env = Some (scalar 3)"
proof -
  let ?B = "demo_backend rnd"
  have zm: "eval ?B demo_weights (z_mean_tensor wd m e) env = Some (constant_array [1, latent_dim] 0)"
    and zlv: "eval ?B demo_weights (z_log_var_tensor wd m e) env = Some (constant_array [1, latent_dim] 0)"
    using eval_z_mean [of env img ?B demo_weights wd m e] assms(1) demo_encoder by simp_all
  have "\<exists>z. sampling rnd [constant_array [1, latent_dim] 0, constant_array [1, latent_dim] 0] = Some z"
    using sampling_value [of "constant_array [1, latent_dim] 0" 1 latent_dim
        "constant_array [1, latent_dim] 0" rnd] assms(2)
    by simp
  then obtain z where z: "sampling rnd [constant_array [1, latent_dim] 0, constant_array [1, latent_dim] 0] = Some z"
    by blast
  have zt: "eval ?B demo_weights (z_tensor wd m e) env = Some z"
    using zm zlv z by (simp add: z_tensor_def the_sampler_def run_layer_def demo_backend_def)
  have xt: "eval ?B demo_weights (x_tilde_tensor wd m e) env = Some z"
    using zt by (simp add: x_tilde_tensor_def demo_decoder pick_def)
  have f1: "eval ?B demo_weights (dis wd m e x_input 1) env = Some img"
    using assms(1) by (simp add: dis_def eval_x_input demo_discriminator pick_def)
  have f2: "eval ?B demo_weights (dis wd m e (x_tilde_tensor wd m e) 1) env = Some z"
    using xt by (simp add: dis_def demo_discriminator pick_def)
  show ?thesis
    using f1 f2 by (simp add: dis_nll_loss_tensor_def lift2_def demo_backend_def)
qed

section \<open>The claims\<close>

subsection \<open>C1: the graphs returned\<close>

text \<open>
  C1, as stated: for every \<open>recon_vs_gan_weight\<close> in (0,1), \<open>create_models\<close> returns exactly
  7 graphs. It returns 8: at \<open>recon_vs_gan_weight = 1/2\<close> (and the other parameters at their
  defaults) the returned tuple has length 8, not 7.
\<close>

theorem create_models_seven_counterexample:
  "map_sum id length (create_models (1/2) (1/100000) (9/10) (1/1000000)) = Inr 8 \<and>
   map_sum id length (create_models (1/2) (1/100000) (9/10) (1/1000000)) \<noteq> Inr 7"
  by (simp add: create_models_built built_length)

text \<open>
  C1, amended: for every \<open>recon_vs_gan_weight\<close> in (0,1) and any \<open>wdecay\<close>, \<open>bn_mom\<close>,
  \<open>bn_eps\<close>, \<open>create_models\<close> returns exactly 8 graphs, named \<open>encoder\<close>, \<open>decoder\<close>,
  \<open>discriminator\<close>, \<open>e\<close> (encoder_train), \<open>de\<close> (decoder_train), \<open>di\<close>
  (discriminator_train), \<open>vae\<close> and \<open>vaegan\<close>. The five composite graphs take 1, 2, 2, 1, 1
  inputs and give 1, 2, 3, 1, 1 outputs; the per-sample output shapes are: two latent
  vectors of 128 for the encoder, a 64x64x3 image for the decoder and for \<open>vae\<close>, a score
  and an 8x8x256 feature tensor for the discriminator, the feature tensor for
  encoder_train, scores for decoder_train, discriminator_train and \<open>vaegan\<close>.
\<close>

theorem create_models_returns_eight:
  assumes "0 < w" and "w < 1"
  shows "\<exists>ms. create_models w wd m e = Inr ms \<and> length ms = 8 \<and>
           map mname ms =
             [''encoder'', ''decoder'', ''discriminator'', ''e'', ''de'', ''di'', ''vae'',
              ''vaegan''] \<and>
           map (\<lambda>g. (length (inputs g), length (outputs g))) (drop 3 ms) =
             [(1, 1), (2, 2), (2, 3), (1, 1), (1, 1)] \<and>
           map model_shapes ms =
             [Some [[128], [128]], Some [[64, 64, 3]], Some [[1], [8, 8, 256]],
              Some [[8, 8, 256]], Some [[1], [1]], Some [[1], [1], [1]], Some [[64, 64, 3]],
              Some [[1]]]"
proof -
  from assms have "w \<noteq> 1" by simp
  then have "create_models w wd m e = Inr (built w wd m e)"
    by (rule create_models_built)
  then show ?thesis
    using built_length built_names built_signatures built_shapes by blast
qed

theorem create_models_returns_eight_witness:
  "(0::real) < 1/2 \<and> (1/2::real) < 1 \<and>
   (\<exists>ms. create_models (1/2) (1/100000) (9/10) (1/1000000) = Inr ms \<and> length ms = 8 \<and>
           map mname ms =
             [''encoder'', ''decoder'', ''discriminator'', ''e'', ''de'', ''di'', ''vae'',
              ''vaegan''] \<and>
           map (\<lambda>g. (length (inputs g), length (outputs g))) (drop 3 ms) =
             [(1, 1), (2, 2), (2, 3), (1, 1), (1, 1)] \<and>
           map model_shapes ms =
             [Some [[128], [128]], Some [[64, 64, 3]], Some [[1], [8, 8, 256]],
              Some [[8, 8, 256]], Some [[1], [1]], Some [[1], [1], [1]], Some [[64, 64, 3]],
              Some [[1]]])"
  using create_models_returns_eight [of "1/2" "1/100000" "9/10" "1/1000000"] by simp

subsection \<open>C3: the sampler\<close>

text \<open>
  C3: for every \<open>z_mean\<close> and \<open>z_log_var\<close> of shape (batch, 128) and every noise draw
  \<open>epsilon\<close> of that shape, \<open>sampling\<close> returns the array of the same shape whose elements
  are \<open>z_mean + exp(0.5 * z_log_var) * epsilon\<close>, element by element; the \<open>Lambda\<close> layer
  that wraps it returns the same.
\<close>

theorem sampling_reparameterization:
  assumes "shape z_mean = [b, latent_dim]" and "length (data z_mean) = b * latent_dim"
    and "shape z_log_var = [b, latent_dim]" and "length (data z_log_var) = b * latent_dim"
    and "random_normal B [b, latent_dim] = eps"
    and "shape eps = [b, latent_dim]" and "length (data eps) = b * latent_dim"
  shows "\<exists>z. sampling (random_normal B) [z_mean, z_log_var] = Some z \<and>
             run_layer B W (Layer i (Lambda out nm)) [z_mean, z_log_var] = Some z \<and>
             shape z = [b, latent_dim] \<and> length (data z) = b * latent_dim \<and>
             (\<forall>k < b * latent_dim.
                data z ! k = data z_mean ! k + exp (0.5 * data z_log_var ! k) * data eps ! k)"
proof -
  let ?z = "NDArray [b, latent_dim]
              (map2 (+) (data z_mean)
                 (map2 (*) (map exp (map ((*) 0.5) (data z_log_var))) (data eps)))"
  have s: "sampling (random_normal B) [z_mean, z_log_var] = Some ?z"
    using sampling_value [of z_mean b latent_dim z_log_var "random_normal B"] assms by simp
  have r: "run_layer B W (Layer i (Lambda out nm)) [z_mean, z_log_var] = Some ?z"
    using s by (simp add: run_layer_def)
  have l: "length (data ?z) = b * latent_dim"
    using assms by simp
  have p: "\<forall>k < b * latent_dim.
             data ?z ! k = data z_mean ! k + exp (0.5 * data z_log_var ! k) * data eps ! k"
    using assms by simp
  show ?thesis
    using s r l p by (intro exI [of _ ?z]) simp
qed

theorem sampling_reparameterization_witness:
  "shape (constant_array [1, latent_dim] 0) = [1, latent_dim] \<and>
   length (data (constant_array [1, latent_dim] 0)) = 1 * latent_dim \<and>
   random_normal (demo_backend unit_noise) [1, latent_dim] =
     constant_array [1, latent_dim] 1 \<and>
   shape (constant_array [1, latent_dim] 1) = [1, latent_dim] \<and>
   length (data (constant_array [1, latent_dim] 1)) = 1 * latent_dim \<and>
   (\<exists>z. sampling (random_normal (demo_backend unit_noise))
          [constant_array [1, latent_dim] 0, constant_array [1, latent_dim] 0] = Some z \<and>
        run_layer (demo_backend unit_noise) demo_weights
          (Layer 0 (Lambda [latent_dim] (Some ''sampler'')))
          [constant_array [1, latent_dim] 0, constant_array [1, latent_dim] 0] = Some z \<and>
        shape z = [1, latent_dim] \<and> length (data z) = 1 * latent_dim \<and>
        (\<forall>k < 1 * latent_dim.
           data z ! k =
             data (constant_array [1, latent_dim] 0) ! k +
             exp (0.5 * data (constant_array [1, latent_dim] 0) ! k) *
             data (constant_array [1, latent_dim] 1) ! k))"
proof -
  have s0: "shape (constant_array [1, latent_dim] 0) = [1, latent_dim]"
    by simp
  have l0: "length (data (constant_array [1, latent_dim] 0)) = 1 * latent_dim"
    by (rule constant_array_length)
  have r: "random_normal (demo_backend unit_noise) [1, latent_dim] =
     constant_array [1, latent_dim] 1"
    by (simp add: demo_backend_def unit_noise_def)
  have s1: "shape (constant_array [1, latent_dim] 1) = [1, latent_dim]"
    by simp
  have l1: "length (data (constant_array [1, latent_dim] 1)) = 1 * latent_dim"
    by (rule constant_array_length)
  show ?thesis
    using s0 l0 r s1 l1
      sampling_reparameterization [OF s0 l0 s0 l0 r s1 l1, of demo_weights 0 "[latent_dim]"
        "Some ''sampler''"]
    by blast
qed

subsection \<open>C2: one encoder, one decoder, one discriminator\<close>

lemma built_calls:
  "list_all (\<lambda>g. list_all (calls_only (take 3 (built w wd m e))) (model_calls g))
     (drop 3 (built w wd m e))"
  by (simp add: built_def dis_def x_tilde_tensor_def x_p_tensor_def z_tensor_def
      z_mean_tensor_def z_log_var_tensor_def x_input_def z_p_input_def
      dis_nll_loss_tensor_def kl_loss_tensor_def calls_only_def)

lemma built_layers_subset:
  "list_all (\<lambda>g. set (model_layers g) \<subseteq>
                 set (model_layers (the_encoder wd m e)) \<union> set (model_layers (the_decoder wd m e)) \<union>
                 set (model_layers (the_discriminator wd m e)) \<union> {the_sampler})
     (built w wd m e)"
  by (simp add: built_def composite_defs_layers dis_nll_loss_tensor_def kl_loss_tensor_def
      z_mean_tensor_def z_log_var_tensor_def x_input_def) blast

text \<open>
  C2: encoder, decoder and discriminator are built once, and every composite graph refers
  to these same objects. Every model call in the five composite graphs is a call of one of
  the three returned base models; the three base models have no layer object in common;
  no returned graph has a layer object outside the three base models, other than the
  weightless sampler. Consequently, when the weights of decoder layers are changed from
  \<open>W\<close> to \<open>W'\<close> (all other weights kept), the latent tensor is unchanged, the output of
  \<open>vae\<close> is the output of the standalone decoder under \<open>W'\<close> on that latent value, and the
  two outputs of decoder_train are the unchanged discriminator's scores of the outputs of
  the standalone decoder under \<open>W'\<close> on the latent value and on the prior sample.
\<close>

theorem decoder_weights_shared:
  assumes "create_models w wd m e = Inr ms"
    and "\<forall>i. i \<notin> lid ` set (model_layers (ms ! 1)) \<longrightarrow> W' i = W i"
  shows "list_all (\<lambda>g. list_all (calls_only (take 3 ms)) (model_calls g)) (drop 3 ms) \<and>
         lid ` set (model_layers (ms ! 0)) \<inter> lid ` set (model_layers (ms ! 1)) = {} \<and>
         lid ` set (model_layers (ms ! 0)) \<inter> lid ` set (model_layers (ms ! 2)) = {} \<and>
         lid ` set (model_layers (ms ! 1)) \<inter> lid ` set (model_layers (ms ! 2)) = {} \<and>
         (\<exists>s. is_Lambda (config s) \<and>
              list_all (\<lambda>g. set (model_layers g) \<subseteq>
                             set (model_layers (ms ! 0)) \<union> set (model_layers (ms ! 1)) \<union>
                             set (model_layers (ms ! 2)) \<union> {s}) ms) \<and>
         (\<exists>x z_p z.
            inputs (ms ! 4) = [x, z_p] \<and>
            outputs (ms ! 6) = [Call (ms ! 1) [z] 0] \<and>
            outputs (ms ! 4) =
              [Call (ms ! 2) [Call (ms ! 1) [z] 0] 0, Call (ms ! 2) [Call (ms ! 1) [z_p] 0] 0] \<and>
            (\<forall>env.
               eval B W' z env = eval B W z env \<and>
               eval B W' (outputs (ms ! 6) ! 0) env =
                 Option.bind (eval B W z env) (\<lambda>zv. pick 0 (run_model B W' (ms ! 1) [zv])) \<and>
               eval B W' (outputs (ms ! 4) ! 0) env =
                 Option.bind (eval B W z env)
                   (\<lambda>zv. Option.bind (pick 0 (run_model B W' (ms ! 1) [zv]))
                      (\<lambda>xt. pick 0 (run_model B W (ms ! 2) [xt]))) \<and>
               eval B W' (outputs (ms ! 4) ! 1) env =
                 Option.bind (eval B W z_p env)
                   (\<lambda>zv. Option.bind (pick 0 (run_model B W' (ms ! 1) [zv]))
                      (\<lambda>xp. pick 0 (run_model B W (ms ! 2) [xp])))))"
proof -
  have ms: "ms = built w wd m e"
    using create_models_Inr [OF assms(1)] by simp
  have fr: "\<forall>i. i \<notin> lid ` set (model_layers (the_decoder wd m e)) \<longrightarrow> W' i = W i"
    using assms(2) unfolding ms built_1 .
  have t3: "take 3 (built w wd m e) =
      [the_encoder wd m e, the_decoder wd m e, the_discriminator wd m e]"
    by (simp add: built_def)
  have c1: "list_all (\<lambda>g. list_all (calls_only (take 3 ms)) (model_calls g)) (drop 3 ms)"
    unfolding ms by (rule built_calls)
  have c2: "lid ` set (model_layers (ms ! 0)) \<inter> lid ` set (model_layers (ms ! 1)) = {}"
    unfolding ms built_0 built_1 by (rule base_lids_disjoint(1))
  have c3: "lid ` set (model_layers (ms ! 0)) \<inter> lid ` set (model_layers (ms ! 2)) = {}"
    unfolding ms built_0 built_2 by (rule base_lids_disjoint(2))
  have c4: "lid ` set (model_layers (ms ! 1)) \<inter> lid ` set (model_layers (ms ! 2)) = {}"
    unfolding ms built_1 built_2 by (rule base_lids_disjoint(3))
  have c5: "\<exists>s. is_Lambda (config s) \<and>
              list_all (\<lambda>g. set (model_layers g) \<subseteq>
                             set (model_layers (ms ! 0)) \<union> set (model_layers (ms ! 1)) \<union>
                             set (model_layers (ms ! 2)) \<union> {s}) ms"
  proof (intro exI [of _ the_sampler] conjI)
    show "is_Lambda (config the_sampler)"
      by (simp add: the_sampler_def)
    show "list_all (\<lambda>g. set (model_layers g) \<subseteq>
                             set (model_layers (ms ! 0)) \<union> set (model_layers (ms ! 1)) \<union>
                             set (model_layers (ms ! 2)) \<union> {the_sampler}) ms"
      unfolding ms built_0 built_1 built_2 by (rule built_layers_subset)
  qed
  have sem: "\<forall>env.
      eval B W' (z_tensor wd m e) env = eval B W (z_tensor wd m e) env \<and>
      eval B W' (x_tilde_tensor wd m e) env =
        Option.bind (eval B W (z_tensor wd m e) env)
          (\<lambda>zv. pick 0 (run_model B W' (the_decoder wd m e) [zv])) \<and>
      eval B W' (dis wd m e (x_tilde_tensor wd m e) 0) env =
        Option.bind (eval B W (z_tensor wd m e) env)
          (\<lambda>zv. Option.bind (pick 0 (run_model B W' (the_decoder wd m e) [zv]))
             (\<lambda>xt. pick 0 (run_model B W (the_discriminator wd m e) [xt]))) \<and>
      eval B W' (dis wd m e (x_p_tensor wd m e) 0) env =
        Option.bind (eval B W z_p_input env)
          (\<lambda>zv. Option.bind (pick 0 (run_model B W' (the_decoder wd m e) [zv]))
             (\<lambda>xp. pick 0 (run_model B W (the_discriminator wd m e) [xp])))"
  proof (intro allI conjI)
    fix env
    show z: "eval B W' (z_tensor wd m e) env = eval B W (z_tensor wd m e) env"
      by (rule frame_latent [OF fr])
    show xt: "eval B W' (x_tilde_tensor wd m e) env =
        Option.bind (eval B W (z_tensor wd m e) env)
          (\<lambda>zv. pick 0 (run_model B W' (the_decoder wd m e) [zv]))"
      by (simp add: eval_x_tilde z)
    show "eval B W' (dis wd m e (x_tilde_tensor wd m e) 0) env =
        Option.bind (eval B W (z_tensor wd m e) env)
          (\<lambda>zv. Option.bind (pick 0 (run_model B W' (the_decoder wd m e) [zv]))
             (\<lambda>xt. pick 0 (run_model B W (the_discriminator wd m e) [xt])))"
      by (cases "eval B W (z_tensor wd m e) env")
        (simp_all add: eval_dis xt frame_discriminator [OF fr])
    show "eval B W' (dis wd m e (x_p_tensor wd m e) 0) env =
        Option.bind (eval B W z_p_input env)
          (\<lambda>zv. Option.bind (pick 0 (run_model B W' (the_decoder wd m e) [zv]))
             (\<lambda>xp. pick 0 (run_model B W (the_discriminator wd m e) [xp])))"
      by (cases "env 51")
        (simp_all add: eval_dis eval_x_p eval_z_p_input frame_discriminator [OF fr])
  qed
  have c6: "\<exists>x z_p z.
            inputs (ms ! 4) = [x, z_p] \<and>
            outputs (ms ! 6) = [Call (ms ! 1) [z] 0] \<and>
            outputs (ms ! 4) =
              [Call (ms ! 2) [Call (ms ! 1) [z] 0] 0, Call (ms ! 2) [Call (ms ! 1) [z_p] 0] 0] \<and>
            (\<forall>env.
               eval B W' z env = eval B W z env \<and>
               eval B W' (outputs (ms ! 6) ! 0) env =
                 Option.bind (eval B W z env) (\<lambda>zv. pick 0 (run_model B W' (ms ! 1) [zv])) \<and>
               eval B W' (outputs (ms ! 4) ! 0) env =
                 Option.bind (eval B W z env)
                   (\<lambda>zv. Option.bind (pick 0 (run_model B W' (ms ! 1) [zv]))
                      (\<lambda>xt. pick 0 (run_model B W (ms ! 2) [xt]))) \<and>
               eval B W' (outputs (ms ! 4) ! 1) env =
                 Option.bind (eval B W z_p env)
                   (\<lambda>zv. Option.bind (pick 0 (run_model B W' (ms ! 1) [zv]))
                      (\<lambda>xp. pick 0 (run_model B W (ms ! 2) [xp]))))"
  proof (rule exI [of _ x_input], rule exI [of _ z_p_input], rule exI [of _ "z_tensor wd m e"],
      intro conjI)
    show "inputs (ms ! 4) = [x_input, z_p_input]"
      by (simp add: ms built_4)
    show "outputs (ms ! 6) = [Call (ms ! 1) [z_tensor wd m e] 0]"
      by (simp add: ms built_6 built_Suc_0 x_tilde_tensor_def)
    show "outputs (ms ! 4) =
        [Call (ms ! 2) [Call (ms ! 1) [z_tensor wd m e] 0] 0,
         Call (ms ! 2) [Call (ms ! 1) [z_p_input] 0] 0]"
      by (simp add: ms built_4 built_Suc_0 built_2 x_tilde_tensor_def x_p_tensor_def dis_def)
    show "\<forall>env.
       eval B W' (z_tensor wd m e) env = eval B W (z_tensor wd m e) env \<and>
       eval B W' (outputs (ms ! 6) ! 0) env =
         Option.bind (eval B W (z_tensor wd m e) env)
           (\<lambda>zv. pick 0 (run_model B W' (ms ! 1) [zv])) \<and>
       eval B W' (outputs (ms ! 4) ! 0) env =
         Option.bind (eval B W (z_tensor wd m e) env)
           (\<lambda>zv. Option.bind (pick 0 (run_model B W' (ms ! 1) [zv]))
              (\<lambda>xt. pick 0 (run_model B W (ms ! 2) [xt]))) \<and>
       eval B W' (outputs (ms ! 4) ! 1) env =
         Option.bind (eval B W z_p_input env)
           (\<lambda>zv. Option.bind (pick 0 (run_model B W' (ms ! 1) [zv]))
              (\<lambda>xp. pick 0 (run_model B W (ms ! 2) [xp])))"
      unfolding ms built_1 built_2 built_4 built_6 using sem by simp
  qed
  show ?thesis
    by (intro conjI c1 c2 c3 c4 c5 c6)
qed

theorem decoder_weights_shared_witness:
  "create_models (1/2) (1/100000) (9/10) (1/1000000) = Inr default_build \<and>
   changed_weights = demo_weights(3 := Some (scalar 7)) \<and>
   3 \<in> lid ` set (model_layers (default_build ! 1)) \<and>
   list_all (\<lambda>g. list_all (calls_only (take 3 default_build)) (model_calls g))
     (drop 3 default_build) \<and>
   lid ` set (model_layers (default_build ! 0)) \<inter>
     lid ` set (model_layers (default_build ! 1)) = {} \<and>
   lid ` set (model_layers (default_build ! 0)) \<inter>
     lid ` set (model_layers (default_build ! 2)) = {} \<and>
   lid ` set (model_layers (default_build ! 1)) \<inter>
     lid ` set (model_layers (default_build ! 2)) = {}"
proof -
  have cw: "changed_weights = demo_weights(3 := Some (scalar 7))"
    by (rule changed_weights_def)
  have three: "3 \<in> lid ` set (model_layers (default_build ! 1))"
    by (simp add: default_build_eq built_Suc_0 the_decoder_def decoder_layers_def build_defs)
  have fr: "\<forall>i. i \<notin> lid ` set (model_layers (default_build ! 1)) \<longrightarrow>
        changed_weights i = demo_weights i"
    using three by (auto simp add: changed_weights_def)
  note shared = decoder_weights_shared [OF create_models_default fr,
      of "demo_backend unit_noise"]
  show ?thesis
    by (intro conjI create_models_default cw three shared [THEN conjunct1]
        shared [THEN conjunct2, THEN conjunct1]
        shared [THEN conjunct2, THEN conjunct2, THEN conjunct1]
        shared [THEN conjunct2, THEN conjunct2, THEN conjunct2, THEN conjunct1])
qed

subsection \<open>C4: the KL divergence loss\<close>

lemma kl_loss_is:
  "losses (built w wd m e ! 3) ! 0 =
     Mean (Mul (Const (- 0.5))
       (Sum_last (Sub (Sub (Add (Const 1) (Call (built w wd m e ! 0) (inputs (built w wd m e ! 3)) 1))
                           (Square (Call (built w wd m e ! 0) (inputs (built w wd m e ! 3)) 0)))
                      (Exp (Call (built w wd m e ! 0) (inputs (built w wd m e ! 3)) 1)))))"
  by (simp add: built_3 built_0 kl_loss_tensor_def z_mean_tensor_def z_log_var_tensor_def)

text \<open>
  C4: the first loss bound to encoder_train is the tensor
  \<open>mean(-0.5 * sum(1 + z_log_var - z_mean^2 - exp(z_log_var), axis=-1))\<close> of the encoder's
  two outputs on the model's input. When the encoder returns \<open>z_mean\<close> and \<open>z_log_var\<close> of
  shape (b, 128) on a batch of \<open>b > 0\<close> images, the value of that loss is the KL formula
  of the spec, averaged over the batch; it is 0 when all elements of \<open>z_mean\<close> and
  \<open>z_log_var\<close> are 0.
\<close>

theorem kl_loss_value:
  assumes "create_models w wd m e = Inr ms"
    and "run_model B W (ms ! 0) [img] = Some [z_mean, z_log_var]"
    and "shape z_mean = [b, latent_dim]" and "length (data z_mean) = b * latent_dim"
    and "shape z_log_var = [b, latent_dim]" and "length (data z_log_var) = b * latent_dim"
    and "0 < b"
  shows "losses (ms ! 3) ! 0 =
           Mean (Mul (Const (- 0.5))
             (Sum_last (Sub (Sub (Add (Const 1) (Call (ms ! 0) (inputs (ms ! 3)) 1))
                                 (Square (Call (ms ! 0) (inputs (ms ! 3)) 0)))
                            (Exp (Call (ms ! 0) (inputs (ms ! 3)) 1))))) \<and>
         eval B W (losses (ms ! 3) ! 0) (bind_inputs (inputs (ms ! 3)) [img]) =
           Some (scalar (kl_divergence b latent_dim (data z_mean) (data z_log_var))) \<and>
         ((\<forall>v \<in> set (data z_mean). v = 0) \<and> (\<forall>v \<in> set (data z_log_var). v = 0) \<longrightarrow>
            eval B W (losses (ms ! 3) ! 0) (bind_inputs (inputs (ms ! 3)) [img]) =
              Some (scalar 0))"
proof -
  have ms: "ms = built w wd m e"
    using create_models_Inr [OF assms(1)] by simp
  have enc: "run_model B W (the_encoder wd m e) [img] = Some [z_mean, z_log_var]"
    using assms(2) by (simp add: ms built_0)
  have env: "bind_inputs (inputs (ms ! 3)) [img] 50 = Some img"
    by (simp add: ms built_3 bind_x_input)
  have form: "losses (ms ! 3) ! 0 =
           Mean (Mul (Const (- 0.5))
             (Sum_last (Sub (Sub (Add (Const 1) (Call (ms ! 0) (inputs (ms ! 3)) 1))
                                 (Square (Call (ms ! 0) (inputs (ms ! 3)) 0)))
                            (Exp (Call (ms ! 0) (inputs (ms ! 3)) 1)))))"
    unfolding ms by (rule kl_loss_is)
  have kl: "losses (ms ! 3) ! 0 = kl_loss_tensor wd m e"
    by (simp add: ms built_3)
  have val: "eval B W (losses (ms ! 3) ! 0) (bind_inputs (inputs (ms ! 3)) [img]) =
           Some (scalar (kl_divergence b latent_dim (data z_mean) (data z_log_var)))"
  proof -
    let ?env = "bind_inputs (inputs (ms ! 3)) [img]"
    have zm: "eval B W (z_mean_tensor wd m e) ?env = Some z_mean"
      using eval_z_mean(1) [of ?env img B W wd m e z_mean z_log_var] env enc by simp
    have zlv: "eval B W (z_log_var_tensor wd m e) ?env = Some z_log_var"
      using eval_z_mean(2) [of ?env img B W wd m e z_mean z_log_var] env enc by simp
    show ?thesis
      unfolding kl kl_loss_tensor_def
      by (rule eval_kl [OF zm zlv assms(3-7)])
  qed
  have zero: "(\<forall>v \<in> set (data z_mean). v = 0) \<and> (\<forall>v \<in> set (data z_log_var). v = 0) \<longrightarrow>
            eval B W (losses (ms ! 3) ! 0) (bind_inputs (inputs (ms ! 3)) [img]) =
              Some (scalar 0)"
    using val kl_divergence_zero [of "data z_mean" "data z_log_var" b latent_dim] assms(4,6)
    by simp
  show ?thesis
    by (intro conjI form val zero)
qed

theorem kl_loss_value_witness:
  "create_models (1/2) (1/100000) (9/10) (1/1000000) = Inr default_build \<and>
   run_model (demo_backend unit_noise) demo_weights
     (default_build ! 0) [scalar 0] =
     Some [constant_array [1, latent_dim] 0, constant_array [1, latent_dim] 0] \<and>
   shape (constant_array [1, latent_dim] 0) = [1, latent_dim] \<and>
   length (data (constant_array [1, latent_dim] 0)) = 1 * latent_dim \<and>
   (0::nat) < 1 \<and>
   data (constant_array [1, latent_dim] 0) = replicate (1 * latent_dim) 0 \<and>
   eval (demo_backend unit_noise) demo_weights
     (losses (default_build ! 3) ! 0)
     (bind_inputs (inputs (default_build ! 3))
        [scalar 0]) =
     Some (scalar (kl_divergence 1 latent_dim (data (constant_array [1, latent_dim] 0))
                     (data (constant_array [1, latent_dim] 0)))) \<and>
   eval (demo_backend unit_noise) demo_weights
     (losses (default_build ! 3) ! 0)
     (bind_inputs (inputs (default_build ! 3))
        [scalar 0]) =
     Some (scalar 0)"
proof -
  have h: "create_models (1/2) (1/100000) (9/10) (1/1000000) = Inr default_build"
    by (rule create_models_default)
  have enc: "run_model (demo_backend unit_noise) demo_weights
     (default_build ! 0) [scalar 0] =
     Some [constant_array [1, latent_dim] 0, constant_array [1, latent_dim] 0]"
    by (simp add: default_build_eq built_0 demo_encoder)
  have s0: "shape (constant_array [1, latent_dim] 0) = [1, latent_dim]"
    by simp
  have l0: "length (data (constant_array [1, latent_dim] 0)) = 1 * latent_dim"
    by (rule constant_array_length)
  have b: "(0::nat) < 1"
    by simp
  have r: "data (constant_array [1, latent_dim] 0) = replicate (1 * latent_dim) 0"
    by (simp add: constant_array_def)
  have z: "\<forall>v \<in> set (data (constant_array [1, latent_dim] 0)). v = 0"
    by (simp add: constant_array_def)
  show ?thesis
    using h enc s0 l0 b r z kl_loss_value [OF h enc s0 l0 s0 l0 b]
    by blast
qed

subsection \<open>C5: the loss bound to decoder_train\<close>

text \<open>
  C5: for every \<open>recon_vs_gan_weight\<close> in (0,1), decoder_train has exactly one bound loss,
  the product of the constant \<open>recon_vs_gan_weight / (1 - recon_vs_gan_weight)\<close> and the
  feature-similarity loss tensor (the second loss of encoder_train, a call of
  \<open>mean_gaussian_negative_log_likelihood\<close>). Whenever the feature-similarity loss has the
  value \<open>L\<close>, the loss of decoder_train has the value
  \<open>recon_vs_gan_weight / (1 - recon_vs_gan_weight) * L\<close>.
\<close>

theorem decoder_train_loss:
  assumes "0 < w" and "w < 1" and "create_models w wd m e = Inr ms"
    and "eval B W (losses (ms ! 3) ! 1) env = Some (scalar L)"
  shows "is_MGNLL (losses (ms ! 3) ! 1) \<and>
         losses (ms ! 4) = [Mul (Const (w / (1 - w))) (losses (ms ! 3) ! 1)] \<and>
         eval B W (losses (ms ! 4) ! 0) env = Some (scalar (w / (1 - w) * L))"
proof -
  have ms: "ms = built w wd m e"
    using create_models_Inr [OF assms(3)] by simp
  have nll: "losses (ms ! 3) ! 1 = dis_nll_loss_tensor wd m e"
    by (simp add: ms built_3)
  have c1: "is_MGNLL (losses (ms ! 3) ! 1)"
    unfolding nll by (simp add: dis_nll_loss_tensor_def)
  have c2: "losses (ms ! 4) = [Mul (Const (w / (1 - w))) (losses (ms ! 3) ! 1)]"
    unfolding nll by (simp add: ms built_4)
  have c3: "eval B W (losses (ms ! 4) ! 0) env = Some (scalar (w / (1 - w) * L))"
    unfolding c2 using eval_scaled [OF assms(4), of "w / (1 - w)"] by simp
  show ?thesis
    by (intro conjI c1 c2 c3)
qed

theorem decoder_train_loss_witness:
  "(0::real) < 1/2 \<and> (1/2::real) < 1 \<and>
   create_models (1/2) (1/100000) (9/10) (1/1000000) = Inr default_build \<and>
   eval (demo_backend unit_noise) demo_weights
     (losses (default_build ! 3) ! 1)
     [50 \<mapsto> scalar 0] = Some (scalar 3) \<and>
   is_MGNLL (losses (default_build ! 3) ! 1) \<and>
   losses (default_build ! 4) =
     [Mul (Const ((1/2) / (1 - 1/2)))
        (losses (default_build ! 3) ! 1)] \<and>
   eval (demo_backend unit_noise) demo_weights
     (losses (default_build ! 4) ! 0)
     [50 \<mapsto> scalar 0] = Some (scalar ((1/2) / (1 - 1/2) * 3))"
proof -
  have a: "(0::real) < 1/2" and b: "(1/2::real) < 1"
    by simp_all
  have h: "create_models (1/2) (1/100000) (9/10) (1/1000000) = Inr default_build"
    by (rule create_models_default)
  have l: "eval (demo_backend unit_noise) demo_weights
     (losses (default_build ! 3) ! 1)
     [50 \<mapsto> scalar 0] = Some (scalar 3)"
    by (simp add: default_build_eq built_3 demo_nll unit_noise_def)
  show ?thesis
    using a b h l decoder_train_loss [OF a b h l]
    by blast
qed

subsection \<open>C6: the normalisation of the weight is unguarded\<close>

text \<open>
  C6: \<open>create_models\<close> has no guard on \<open>recon_vs_gan_weight\<close>. For every value in (0,1) the
  divisor \<open>1 - recon_vs_gan_weight\<close> is nonzero, the division succeeds and the graphs are
  returned; every value other than 1, inside (0,1) or not, is accepted as well; the value 1
  makes the division \<open>recon_vs_gan_weight / (1 - recon_vs_gan_weight)\<close> a division by zero,
  which \<open>create_models\<close> propagates.
\<close>

theorem normalized_weight_division:
  "(0 < w \<and> w < 1 \<longrightarrow>
      1 - w \<noteq> 0 \<and> py_div w (1 - w) = Inr (w / (1 - w)) \<and>
      (\<exists>ms. create_models w wd m e = Inr ms)) \<and>
   (w \<noteq> 1 \<longrightarrow> (\<exists>ms. create_models w wd m e = Inr ms)) \<and>
   py_div 1 (1 - 1) = Inl ZeroDivisionError \<and>
   create_models 1 wd m e = Inl ZeroDivisionError"
  by (simp add: create_models_built create_models_one py_div_def)

theorem normalized_weight_division_witness:
  "(0::real) < 1/2 \<and> (1/2::real) < 1 \<and> (1::real) - 1/2 \<noteq> 0 \<and>
   py_div (1/2) (1 - 1/2) = Inr ((1/2) / (1 - 1/2)) \<and>
   (\<exists>ms. create_models (1/2) (1/100000) (9/10) (1/1000000) = Inr ms) \<and>
   (2::real) \<noteq> 1 \<and> (\<exists>ms. create_models 2 (1/100000) (9/10) (1/1000000) = Inr ms) \<and>
   create_models 1 (1/100000) (9/10) (1/1000000) = Inl ZeroDivisionError"
  using normalized_weight_division [of "1/2" "1/100000" "9/10" "1/1000000"]
    normalized_weight_division [of 2 "1/100000" "9/10" "1/1000000"]
  by simp

subsection \<open>C7: initialisers and regularisers of the encoder's kernels\<close>

lemma the_encoder_kernel_configs:
  "map config (kernel_layers (the_encoder wd m e)) =
     [Conv2D 64 5 (Some 2) (Some ''same'') None (Some (l2 wd)) (Some ''he_uniform'') None,
      Conv2D 128 5 (Some 2) (Some ''same'') None (Some (l2 wd)) (Some ''he_uniform'') None,
      Conv2D 256 5 (Some 2) (Some ''same'') None (Some (l2 wd)) (Some ''he_uniform'') None,
      Dense 1024 None (Some (l2 wd)) (Some ''he_uniform'') None None,
      Dense 128 None None (Some ''he_uniform'') (Some ''z_mean'') None,
      Conv2D 64 5 (Some 2) (Some ''same'') None (Some (l2 wd)) (Some ''he_uniform'') None,
      Conv2D 128 5 (Some 2) (Some ''same'') None (Some (l2 wd)) (Some ''he_uniform'') None,
      Conv2D 256 5 (Some 2) (Some ''same'') None (Some (l2 wd)) (Some ''he_uniform'') None,
      Dense 1024 None (Some (l2 wd)) (Some ''he_uniform'') None None,
      Dense 128 None None (Some ''he_uniform'') (Some ''z_log_var'') None]"
  by (simp add: kernel_layers_def the_encoder_def build_defs has_kernel_def)

lemma the_encoder_kernel_set:
  "set (map config (kernel_layers (the_encoder wd m e))) =
     {Conv2D 64 5 (Some 2) (Some ''same'') None (Some (l2 wd)) (Some ''he_uniform'') None,
      Conv2D 128 5 (Some 2) (Some ''same'') None (Some (l2 wd)) (Some ''he_uniform'') None,
      Conv2D 256 5 (Some 2) (Some ''same'') None (Some (l2 wd)) (Some ''he_uniform'') None,
      Dense 1024 None (Some (l2 wd)) (Some ''he_uniform'') None None,
      Dense 128 None None (Some ''he_uniform'') (Some ''z_mean'') None,
      Dense 128 None None (Some ''he_uniform'') (Some ''z_log_var'') None}"
  unfolding the_encoder_kernel_configs by (simp only: list.set) blast

lemma the_encoder_he_uniform:
  "list_all (\<lambda>l. kernel_initializer (config l) = Some ''he_uniform'')
     (kernel_layers (the_encoder wd m e))"
  by (simp add: kernel_layers_def the_encoder_def build_defs has_kernel_def)

lemma the_encoder_regularizers:
  "list_all (\<lambda>l. kernel_regularizer (config l) =
              (if layer_name (config l) \<in> {Some ''z_mean'', Some ''z_log_var''} then None
               else Some (l2 wd)))
     (kernel_layers (the_encoder wd m e))"
  by (simp add: kernel_layers_def the_encoder_def build_defs has_kernel_def)

text \<open>
  C7, as stated: in the encoder every convolution and dense kernel, the two heads
  \<open>z_mean\<close> and \<open>z_log_var\<close> included, uses He-uniform initialisation and carries L2 weight
  decay with coefficient \<open>wdecay\<close>. It fails at the heads: with the default
  \<open>wdecay = 1e-5\<close>, not every kernel layer of the encoder has both.
\<close>

theorem encoder_heads_l2_counterexample:
  "\<not> list_all (he_uniform_l2 (1/100000))
       (kernel_layers (projr (create_models (1/2) (1/100000) (9/10) (1/1000000)) ! 0))"
  by (simp add: create_models_built built_0 kernel_layers_def the_encoder_def build_defs
      has_kernel_def he_uniform_l2_def)

text \<open>
  C7, amended: the encoder's kernels are those of its three convolutions, of the
  1024-unit dense layer and of the two heads \<open>z_mean\<close> and \<open>z_log_var\<close>. Every one of them
  uses He-uniform initialisation; the convolutions and the 1024-unit dense layer carry L2
  weight decay with coefficient \<open>wdecay\<close>; the two heads are built without a kernel
  regulariser.
\<close>

theorem encoder_kernels:
  assumes "create_models w wd m e = Inr ms"
  shows "set (map config (kernel_layers (ms ! 0))) =
     {Conv2D 64 5 (Some 2) (Some ''same'') None (Some (l2 wd)) (Some ''he_uniform'') None,
      Conv2D 128 5 (Some 2) (Some ''same'') None (Some (l2 wd)) (Some ''he_uniform'') None,
      Conv2D 256 5 (Some 2) (Some ''same'') None (Some (l2 wd)) (Some ''he_uniform'') None,
      Dense 1024 None (Some (l2 wd)) (Some ''he_uniform'') None None,
      Dense 128 None None (Some ''he_uniform'') (Some ''z_mean'') None,
      Dense 128 None None (Some ''he_uniform'') (Some ''z_log_var'') None} \<and>
    list_all (\<lambda>l. kernel_initializer (config l) = Some ''he_uniform'') (kernel_layers (ms ! 0)) \<and>
    list_all (\<lambda>l. kernel_regularizer (config l) =
                (if layer_name (config l) \<in> {Some ''z_mean'', Some ''z_log_var''} then None
                 else Some (l2 wd)))
      (kernel_layers (ms ! 0))"
proof -
  have ms: "ms ! 0 = the_encoder wd m e"
    using create_models_Inr [OF assms] by (simp add: built_0)
  show ?thesis
    unfolding ms
    by (intro conjI the_encoder_kernel_set the_encoder_he_uniform the_encoder_regularizers)
qed

theorem encoder_kernels_witness:
  "create_models (1/2) (1/100000) (9/10) (1/1000000) = Inr default_build \<and>
   set (map config (kernel_layers (default_build ! 0))) =
     {Conv2D 64 5 (Some 2) (Some ''same'') None (Some (l2 (1/100000))) (Some ''he_uniform'') None,
      Conv2D 128 5 (Some 2) (Some ''same'') None (Some (l2 (1/100000))) (Some ''he_uniform'') None,
      Conv2D 256 5 (Some 2) (Some ''same'') None (Some (l2 (1/100000))) (Some ''he_uniform'') None,
      Dense 1024 None (Some (l2 (1/100000))) (Some ''he_uniform'') None None,
      Dense 128 None None (Some ''he_uniform'') (Some ''z_mean'') None,
      Dense 128 None None (Some ''he_uniform'') (Some ''z_log_var'') None} \<and>
    list_all (\<lambda>l. kernel_initializer (config l) = Some ''he_uniform'')
      (kernel_layers (default_build ! 0)) \<and>
    list_all (\<lambda>l. kernel_regularizer (config l) =
                (if layer_name (config l) \<in> {Some ''z_mean'', Some ''z_log_var''} then None
                 else Some (l2 (1/100000))))
      (kernel_layers (default_build ! 0))"
proof -
  have h: "create_models (1/2) (1/100000) (9/10) (1/1000000) = Inr default_build"
    by (rule create_models_default)
  show ?thesis
    by (rule conjI [OF h encoder_kernels [OF h]])
qed

subsection \<open>C8: the discriminator's two outputs\<close>

lemma models_distinct:
  "the_encoder wd m e \<noteq> the_discriminator wd m e"
  "the_decoder wd m e \<noteq> the_discriminator wd m e"
  "the_encoder wd m e \<noteq> the_decoder wd m e"
  using mname_the_encoder [of wd m e] mname_the_decoder [of wd m e]
    mname_the_discriminator [of wd m e]
  by auto

lemma disc_outputs_length: "length (outputs (the_discriminator wd m e)) = 2"
  by (simp add: the_discriminator_def build_defs)

lemma disc_score_layer:
  "\<exists>l xs. outputs (the_discriminator wd m e) ! 0 = Apply l xs \<and>
          config l = Dense 1 (Some ''sigmoid'') (Some (l2 wd)) (Some ''he_uniform'') None None"
  by (simp add: the_discriminator_def build_defs)

lemma disc_feature_layer:
  "\<exists>l xs. outputs (the_discriminator wd m e) ! 1 = Apply l xs \<and>
          config l = Conv2D 256 5 (Some 2) (Some ''same'') None (Some (l2 wd))
                       (Some ''he_uniform'') None"
  by (simp add: the_discriminator_def build_defs)

lemma disc_feature_normalised:
  "\<exists>bn act. config bn = BatchNormalization (Some m) (Some e) \<and>
            config act = LeakyReLU leaky_relu_alpha \<and>
            Apply act [Apply bn [outputs (the_discriminator wd m e) ! 1]]
              \<in> set (subtensors (outputs (the_discriminator wd m e) ! 0))"
proof -
  have "config (Layer 43 (BatchNormalization (Some m) (Some e))) = BatchNormalization (Some m) (Some e) \<and>
        config (Layer 44 (LeakyReLU leaky_relu_alpha)) = LeakyReLU leaky_relu_alpha \<and>
        Apply (Layer 44 (LeakyReLU leaky_relu_alpha))
          [Apply (Layer 43 (BatchNormalization (Some m) (Some e)))
             [outputs (the_discriminator wd m e) ! 1]]
          \<in> set (subtensors (outputs (the_discriminator wd m e) ! 0))"
    by (simp add: the_discriminator_def build_defs)
  then show ?thesis by blast
qed

lemma composite_feature_use:
  "list_all (\<lambda>g. list_all (feature_use (the_discriminator wd m e)) (model_calls g))
     (drop 3 (built w wd m e))"
  by (simp add: built_def dis_def x_tilde_tensor_def x_p_tensor_def z_tensor_def
      z_mean_tensor_def z_log_var_tensor_def x_input_def z_p_input_def
      dis_nll_loss_tensor_def kl_loss_tensor_def feature_use_def models_distinct)

lemma composite_scores:
  "list_all (score_only (the_discriminator wd m e))
     (outputs (built w wd m e ! 4) @ outputs (built w wd m e ! 5) @ outputs (built w wd m e ! 7))"
  by (simp add: built_4 built_5 built_7 dis_def x_tilde_tensor_def x_p_tensor_def z_tensor_def
      z_mean_tensor_def z_log_var_tensor_def x_input_def z_p_input_def
      score_only_def models_distinct)

lemma feature_loss:
  "losses (built w wd m e ! 3) ! 1 =
     MGNLL (Call (the_discriminator wd m e) (inputs (built w wd m e ! 3)) 1)
           (Call (the_discriminator wd m e) (outputs (built w wd m e ! 6)) 1)"
  by (simp add: built_3 built_6 dis_nll_loss_tensor_def dis_def)

text \<open>
  C8: the discriminator returns a pair. Output 0 is the result of the final dense layer
  with one unit and sigmoid activation, a scalar per sample; output 1 has per-sample shape
  8x8x256 and is the direct result of the last 256-filter convolution, which has no
  activation of its own. Inside the discriminator that feature tensor is then batch
  normalised and passed through the LeakyReLU, on the way to the score. In the five
  composite graphs, every node that takes a feature output of the discriminator as an
  argument is a call of the feature-similarity loss, and the realism outputs of
  decoder_train, discriminator_train and \<open>vaegan\<close> are score outputs of discriminator calls
  whose arguments are computed without any feature output. The feature-similarity loss is
  computed from the feature outputs on the image and on the reconstruction. (encoder_train
  returns the feature output on the reconstruction as its own output.)
\<close>

theorem discriminator_outputs:
  assumes "create_models w wd m e = Inr ms"
  shows "length (outputs (ms ! 2)) = 2 \<and>
         model_shapes (ms ! 2) = Some [[1], [8, 8, 256]] \<and>
         (\<exists>l xs. outputs (ms ! 2) ! 0 = Apply l xs \<and>
            config l = Dense 1 (Some ''sigmoid'') (Some (l2 wd)) (Some ''he_uniform'') None None) \<and>
         (\<exists>l xs. outputs (ms ! 2) ! 1 = Apply l xs \<and>
            config l = Conv2D 256 5 (Some 2) (Some ''same'') None (Some (l2 wd))
                         (Some ''he_uniform'') None) \<and>
         (\<exists>bn act. config bn = BatchNormalization (Some m) (Some e) \<and>
            config act = LeakyReLU leaky_relu_alpha \<and>
            Apply act [Apply bn [outputs (ms ! 2) ! 1]] \<in> set (subtensors (outputs (ms ! 2) ! 0))) \<and>
         list_all (\<lambda>g. list_all (feature_use (ms ! 2)) (model_calls g)) (drop 3 ms) \<and>
         list_all (score_only (ms ! 2))
           (outputs (ms ! 4) @ outputs (ms ! 5) @ outputs (ms ! 7)) \<and>
         losses (ms ! 3) ! 1 =
           MGNLL (Call (ms ! 2) (inputs (ms ! 3)) 1) (Call (ms ! 2) (outputs (ms ! 6)) 1) \<and>
         outputs (ms ! 3) = [Call (ms ! 2) (outputs (ms ! 6)) 1]"
proof -
  have ms: "ms = built w wd m e"
    using create_models_Inr [OF assms] by simp
  have c1: "length (outputs (ms ! 2)) = 2"
    unfolding ms built_2 by (rule disc_outputs_length)
  have c2: "model_shapes (ms ! 2) = Some [[1], [8, 8, 256]]"
    unfolding ms built_2 by (rule discriminator_shapes)
  have c3: "\<exists>l xs. outputs (ms ! 2) ! 0 = Apply l xs \<and>
            config l = Dense 1 (Some ''sigmoid'') (Some (l2 wd)) (Some ''he_uniform'') None None"
    unfolding ms built_2 by (rule disc_score_layer)
  have c4: "\<exists>l xs. outputs (ms ! 2) ! 1 = Apply l xs \<and>
            config l = Conv2D 256 5 (Some 2) (Some ''same'') None (Some (l2 wd))
                         (Some ''he_uniform'') None"
    unfolding ms built_2 by (rule disc_feature_layer)
  have c5: "\<exists>bn act. config bn = BatchNormalization (Some m) (Some e) \<and>
            config act = LeakyReLU leaky_relu_alpha \<and>
            Apply act [Apply bn [outputs (ms ! 2) ! 1]] \<in> set (subtensors (outputs (ms ! 2) ! 0))"
    unfolding ms built_2 by (rule disc_feature_normalised)
  have c6: "list_all (\<lambda>g. list_all (feature_use (ms ! 2)) (model_calls g)) (drop 3 ms)"
    unfolding ms built_2 by (rule composite_feature_use)
  have c7: "list_all (score_only (ms ! 2))
           (outputs (ms ! 4) @ outputs (ms ! 5) @ outputs (ms ! 7))"
    unfolding ms built_2 by (rule composite_scores)
  have c8: "losses (ms ! 3) ! 1 =
           MGNLL (Call (ms ! 2) (inputs (ms ! 3)) 1) (Call (ms ! 2) (outputs (ms ! 6)) 1)"
    unfolding ms built_2 by (rule feature_loss)
  have c9: "outputs (ms ! 3) = [Call (ms ! 2) (outputs (ms ! 6)) 1]"
    unfolding ms built_2 built_3 built_6 by (simp add: dis_def)
  show ?thesis
    by (intro conjI c1 c2 c3 c4 c5 c6 c7 c8 c9)
qed

theorem discriminator_outputs_witness:
  "create_models (1/2) (1/100000) (9/10) (1/1000000) = Inr default_build \<and>
   length (outputs (default_build ! 2)) = 2 \<and>
   model_shapes (default_build ! 2) =
     Some [[1], [8, 8, 256]] \<and>
   list_all
     (\<lambda>g. list_all (feature_use (default_build ! 2))
            (model_calls g))
     (drop 3 default_build) \<and>
   list_all (score_only (default_build ! 2))
     (outputs (default_build ! 4) @
      outputs (default_build ! 5) @
      outputs (default_build ! 7))"
proof -
  have h: "create_models (1/2) (1/100000) (9/10) (1/1000000) = Inr default_build"
    by (rule create_models_default)
  from discriminator_outputs [OF h] h show ?thesis
    by (elim conjE) (intro conjI, assumption+)
qed

subsection \<open>C9: what \<open>bn_mom\<close> and \<open>bn_eps\<close> configure\<close>

lemma enc_bn_edges: "list_all (bn_edge m e) (model_edges (the_encoder wd m e))"
  by (simp add: bn_edge_def the_encoder_def build_defs)

lemma dec_bn_edges: "list_all (bn_edge m e) (model_edges (the_decoder wd m e))"
  by (simp add: bn_edge_def the_decoder_def decoder_layers_def build_defs)

lemma disc_bn_edges: "list_all (bn_edge m e) (model_edges (the_discriminator wd m e))"
  by (simp add: bn_edge_def the_discriminator_def build_defs)

lemma enc_frame:
  "list_all2 (bn_frame m e m' e') (model_layers (the_encoder wd m e))
     (model_layers (the_encoder wd m' e'))"
  by (simp add: the_encoder_def build_defs bn_frame_def)

lemma dec_frame:
  "list_all2 (bn_frame m e m' e') (model_layers (the_decoder wd m e))
     (model_layers (the_decoder wd m' e'))"
  by (simp add: the_decoder_def decoder_layers_def build_defs bn_frame_def)

lemma disc_frame:
  "list_all2 (bn_frame m e m' e') (model_layers (the_discriminator wd m e))
     (model_layers (the_discriminator wd m' e'))"
  by (simp add: the_discriminator_def build_defs bn_frame_def)

lemma sampler_frame: "bn_frame m e m' e' the_sampler the_sampler"
  by (simp add: bn_frame_def)

lemma built_frame:
  "list_all2 (\<lambda>g g'. list_all2 (bn_frame m e m' e') (model_layers g) (model_layers g'))
     (built w wd m e) (built w wd m' e')"
  by (simp add: built_def dis_def x_tilde_tensor_def x_p_tensor_def z_tensor_def
      z_mean_tensor_def z_log_var_tensor_def x_input_def z_p_input_def
      dis_nll_loss_tensor_def kl_loss_tensor_def)
    (intro conjI list_all2_appendI enc_frame dec_frame disc_frame list.rel_intros sampler_frame)

lemma enc_dense_successors:
  "set (dense_successors (the_encoder wd m e)) = {(1024, BatchNormalization None None)}"
  by (simp add: dense_successors_def the_encoder_def build_defs)

lemma dec_dense_successors:
  "set (dense_successors (the_decoder wd m e)) = {(16384, BatchNormalization None None)}"
  by (simp add: dense_successors_def the_decoder_def decoder_layers_def build_defs)

lemma disc_dense_successors:
  "set (dense_successors (the_discriminator wd m e)) = {(512, BatchNormalization None None)}"
  by (simp add: dense_successors_def the_discriminator_def build_defs)

lemma enc_default_bn: "default_bn_count (the_encoder wd m e) = 1"
  by (simp add: default_bn_count_def the_encoder_def build_defs)

lemma dec_default_bn: "default_bn_count (the_decoder wd m e) = 1"
  by (simp add: default_bn_count_def the_decoder_def decoder_layers_def build_defs)

lemma disc_default_bn: "default_bn_count (the_discriminator wd m e) = 1"
  by (simp add: default_bn_count_def the_discriminator_def build_defs)

lemma disc_feature_consumer:
  "map config (consumers_of (the_discriminator wd m e) (outputs (the_discriminator wd m e) ! 1))
     = [BatchNormalization (Some m) (Some e)]"
  by (simp add: consumers_of_def the_discriminator_def build_defs)

text \<open>
  C9: \<open>bn_mom\<close> and \<open>bn_eps\<close> reach only the batch normalisations that follow a convolution
  (those of \<open>conv_block\<close> and the one applied to the discriminator's feature tensor). Two
  builds that differ in \<open>bn_mom\<close> and \<open>bn_eps\<close> only agree layer by layer in all eight
  graphs, except at batch normalisations built with these two arguments. In each of encoder,
  decoder and discriminator exactly one batch normalisation is built without arguments
  (framework defaults): the one fed by the dense layer of 1024, 16384 and 512 units
  respectively, which is the only layer a dense layer feeds.
\<close>

theorem bn_parameters_frame:
  assumes "create_models w wd m e = Inr ms" and "create_models w wd m' e' = Inr ms'"
  shows "list_all2 (\<lambda>g g'. list_all2 (bn_frame m e m' e') (model_layers g) (model_layers g'))
           ms ms' \<and>
         list_all (\<lambda>g. list_all (bn_edge m e) (model_edges g)) (take 3 ms) \<and>
         set (dense_successors (ms ! 0)) = {(1024, BatchNormalization None None)} \<and>
         set (dense_successors (ms ! 1)) = {(16384, BatchNormalization None None)} \<and>
         set (dense_successors (ms ! 2)) = {(512, BatchNormalization None None)} \<and>
         map default_bn_count (take 3 ms) = [1, 1, 1] \<and>
         map config (consumers_of (ms ! 2) (outputs (ms ! 2) ! 1)) =
           [BatchNormalization (Some m) (Some e)]"
proof -
  have ms: "ms = built w wd m e" and ms': "ms' = built w wd m' e'"
    using create_models_Inr [OF assms(1)] create_models_Inr [OF assms(2)] by simp_all
  have frame: "list_all2 (\<lambda>g g'. list_all2 (bn_frame m e m' e') (model_layers g) (model_layers g'))
           ms ms'"
    unfolding ms ms' by (rule built_frame)
  have edges: "list_all (\<lambda>g. list_all (bn_edge m e) (model_edges g)) (take 3 ms)"
    unfolding ms by (simp add: built_def enc_bn_edges dec_bn_edges disc_bn_edges)
  have d0: "set (dense_successors (ms ! 0)) = {(1024, BatchNormalization None None)}"
    unfolding ms built_0 by (rule enc_dense_successors)
  have d1: "set (dense_successors (ms ! 1)) = {(16384, BatchNormalization None None)}"
    unfolding ms built_1 by (rule dec_dense_successors)
  have d2: "set (dense_successors (ms ! 2)) = {(512, BatchNormalization None None)}"
    unfolding ms built_2 by (rule disc_dense_successors)
  have counts: "map default_bn_count (take 3 ms) = [1, 1, 1]"
    unfolding ms by (simp add: built_def enc_default_bn dec_default_bn disc_default_bn)
  have feat: "map config (consumers_of (ms ! 2) (outputs (ms ! 2) ! 1)) =
           [BatchNormalization (Some m) (Some e)]"
    unfolding ms built_2 by (rule disc_feature_consumer)
  show ?thesis
    by (intro conjI frame edges d0 d1 d2 counts feat)
qed

theorem bn_parameters_frame_witness:
  "create_models (1/2) (1/100000) (9/10) (1/1000000) = Inr default_build \<and>
   create_models (1/2) (1/100000) (1/2) (1/1000) =
     Inr (projr (create_models (1/2) (1/100000) (1/2) (1/1000))) \<and>
   list_all2 (\<lambda>g g'. list_all2 (bn_frame (9/10) (1/1000000) (1/2) (1/1000))
                        (model_layers g) (model_layers g'))
     default_build
     (projr (create_models (1/2) (1/100000) (1/2) (1/1000))) \<and>
   list_all (\<lambda>g. list_all (bn_edge (9/10) (1/1000000)) (model_edges g))
     (take 3 default_build) \<and>
   set (dense_successors (default_build ! 0)) =
     {(1024, BatchNormalization None None)} \<and>
   set (dense_successors (default_build ! 1)) =
     {(16384, BatchNormalization None None)} \<and>
   set (dense_successors (default_build ! 2)) =
     {(512, BatchNormalization None None)} \<and>
   map default_bn_count (take 3 default_build) =
     [1, 1, 1] \<and>
   map config
     (consumers_of (default_build ! 2)
        (outputs (default_build ! 2) ! 1)) =
     [BatchNormalization (Some (9/10)) (Some (1/1000000))]"
proof -
  have h: "create_models (1/2) (1/100000) (9/10) (1/1000000) = Inr default_build"
    by (rule create_models_default)
  have h': "create_models (1/2) (1/100000) (1/2) (1/1000) =
     Inr (projr (create_models (1/2) (1/100000) (1/2) (1/1000)))"
    by (simp add: create_models_built)
  show ?thesis
    by (rule conjI [OF h conjI [OF h' bn_parameters_frame [OF h h']]])
qed

subsection \<open>C10: \<open>vae\<close> samples\<close>

text \<open>
  C10: the output of \<open>vae\<close> is the decoder applied to the sampler's output, and the sampler
  is applied to the two outputs of the encoder on the image: \<open>vae\<close> maps an image to
  \<open>decoder(sampling(encoder(image)))\<close>, with the noise drawn inside \<open>sampling\<close>. The layer
  kernels belong to the framework and are a parameter here; whenever, under some weights,
  the encoder returns a mean and a log-variance of shape (b, 128) on an image batch and the
  decoder tells two latent batches of that shape apart, there are two noise draws for
  which \<open>vae\<close> returns different results on that same image batch.
\<close>

theorem vae_depends_on_noise:
  assumes "create_models w wd m e = Inr ms"
    and "run_model B W (ms ! 0) [img] = Some [z_mean, z_log_var]"
    and "shape z_mean = [b, latent_dim]" and "length (data z_mean) = b * latent_dim"
    and "shape z_log_var = [b, latent_dim]" and "length (data z_log_var) = b * latent_dim"
    and "shape z1 = [b, latent_dim]" and "length (data z1) = b * latent_dim"
    and "shape z2 = [b, latent_dim]" and "length (data z2) = b * latent_dim"
    and "pick 0 (run_model B W (ms ! 1) [z1]) \<noteq> pick 0 (run_model B W (ms ! 1) [z2])"
  shows "(\<exists>s. is_Lambda (config s) \<and>
              outputs (ms ! 6) =
                [Call (ms ! 1)
                   [Apply s [Call (ms ! 0) (inputs (ms ! 6)) 0, Call (ms ! 0) (inputs (ms ! 6)) 1]]
                   0]) \<and>
         (\<forall>rnd. run_model (B\<lparr>random_normal := rnd\<rparr>) W (ms ! 6) [img] =
                  Option.bind (sampling rnd [z_mean, z_log_var])
                    (\<lambda>zv. map_option (\<lambda>v. [v]) (pick 0 (run_model B W (ms ! 1) [zv])))) \<and>
         (\<exists>eps1 eps2. eps1 \<noteq> eps2 \<and>
            run_model (B\<lparr>random_normal := \<lambda>s. eps1\<rparr>) W (ms ! 6) [img] \<noteq>
            run_model (B\<lparr>random_normal := \<lambda>s. eps2\<rparr>) W (ms ! 6) [img])"
proof -
  have ms: "ms = built w wd m e"
    using create_models_Inr [OF assms(1)] by simp
  have enc: "run_model B W (the_encoder wd m e) [img] = Some [z_mean, z_log_var]"
    using assms(2) unfolding ms built_0 .
  have dec: "pick 0 (run_model B W (the_decoder wd m e) [z1]) \<noteq>
             pick 0 (run_model B W (the_decoder wd m e) [z2])"
    using assms(11) unfolding ms built_1 .
  have c1: "\<exists>s. is_Lambda (config s) \<and>
              outputs (ms ! 6) =
                [Call (ms ! 1)
                   [Apply s [Call (ms ! 0) (inputs (ms ! 6)) 0, Call (ms ! 0) (inputs (ms ! 6)) 1]]
                   0]"
  proof (intro exI [of _ the_sampler] conjI)
    show "is_Lambda (config the_sampler)"
      by (simp add: the_sampler_def)
    show "outputs (ms ! 6) =
        [Call (ms ! 1)
           [Apply the_sampler
              [Call (ms ! 0) (inputs (ms ! 6)) 0, Call (ms ! 0) (inputs (ms ! 6)) 1]] 0]"
      unfolding ms built_0 built_1 built_6
      by (simp add: x_tilde_tensor_def z_tensor_def z_mean_tensor_def z_log_var_tensor_def)
  qed
  have law: "\<And>rnd. run_model (B\<lparr>random_normal := rnd\<rparr>) W (ms ! 6) [img] =
                  Option.bind (sampling rnd [z_mean, z_log_var])
                    (\<lambda>zv. map_option (\<lambda>v. [v]) (pick 0 (run_model B W (ms ! 1) [zv])))"
    unfolding ms built_1 by (rule run_vae [OF enc])
  obtain eps1 where e1: "sampling (\<lambda>s. eps1) [z_mean, z_log_var] = Some z1"
    using sampling_onto [OF assms(3-8)] by blast
  obtain eps2 where e2: "sampling (\<lambda>s. eps2) [z_mean, z_log_var] = Some z2"
    using sampling_onto [OF assms(3-6) assms(9,10)] by blast
  have r1: "run_model (B\<lparr>random_normal := \<lambda>s. eps1\<rparr>) W (ms ! 6) [img] =
              map_option (\<lambda>v. [v]) (pick 0 (run_model B W (the_decoder wd m e) [z1]))"
    using law [of "\<lambda>s. eps1"] e1 by (simp add: ms built_Suc_0)
  have r2: "run_model (B\<lparr>random_normal := \<lambda>s. eps2\<rparr>) W (ms ! 6) [img] =
              map_option (\<lambda>v. [v]) (pick 0 (run_model B W (the_decoder wd m e) [z2]))"
    using law [of "\<lambda>s. eps2"] e2 by (simp add: ms built_Suc_0)
  have inj: "inj (\<lambda>v::ndarray. [v])"
    by (simp add: inj_def)
  have diff: "run_model (B\<lparr>random_normal := \<lambda>s. eps1\<rparr>) W (ms ! 6) [img] \<noteq>
              run_model (B\<lparr>random_normal := \<lambda>s. eps2\<rparr>) W (ms ! 6) [img]"
  proof
    assume "run_model (B\<lparr>random_normal := \<lambda>s. eps1\<rparr>) W (ms ! 6) [img] =
            run_model (B\<lparr>random_normal := \<lambda>s. eps2\<rparr>) W (ms ! 6) [img]"
    then have "map_option (\<lambda>v. [v]) (pick 0 (run_model B W (the_decoder wd m e) [z1])) =
               map_option (\<lambda>v. [v]) (pick 0 (run_model B W (the_decoder wd m e) [z2]))"
      using r1 r2 by simp
    then have "pick 0 (run_model B W (the_decoder wd m e) [z1]) =
               pick 0 (run_model B W (the_decoder wd m e) [z2])"
      using option.inj_map [OF inj] by (simp add: inj_eq)
    with dec show False by simp
  qed
  then have ne: "eps1 \<noteq> eps2"
    by auto
  have c3: "\<exists>eps1 eps2. eps1 \<noteq> eps2 \<and>
            run_model (B\<lparr>random_normal := \<lambda>s. eps1\<rparr>) W (ms ! 6) [img] \<noteq>
            run_model (B\<lparr>random_normal := \<lambda>s. eps2\<rparr>) W (ms ! 6) [img]"
    using ne diff by blast
  show ?thesis
    using c1 law c3 by (intro conjI allI)
qed

theorem vae_depends_on_noise_witness:
  "create_models (1/2) (1/100000) (9/10) (1/1000000) = Inr default_build \<and>
   run_model (demo_backend unit_noise) demo_weights
     (default_build ! 0) [scalar 0] =
     Some [constant_array [1, latent_dim] 0, constant_array [1, latent_dim] 0] \<and>
   shape (constant_array [1, latent_dim] 0) = [1, latent_dim] \<and>
   length (data (constant_array [1, latent_dim] 0)) = 1 * latent_dim \<and>
   shape (constant_array [1, latent_dim] 1) = [1, latent_dim] \<and>
   length (data (constant_array [1, latent_dim] 1)) = 1 * latent_dim \<and>
   pick 0 (run_model (demo_backend unit_noise) demo_weights
             (default_build ! 1)
             [constant_array [1, latent_dim] 0]) \<noteq>
   pick 0 (run_model (demo_backend unit_noise) demo_weights
             (default_build ! 1)
             [constant_array [1, latent_dim] 1]) \<and>
   (\<exists>eps1 eps2. eps1 \<noteq> eps2 \<and>
      run_model ((demo_backend unit_noise)\<lparr>random_normal := \<lambda>s. eps1\<rparr>)
        demo_weights (default_build ! 6)
        [scalar 0] \<noteq>
      run_model ((demo_backend unit_noise)\<lparr>random_normal := \<lambda>s. eps2\<rparr>)
        demo_weights (default_build ! 6)
        [scalar 0])"
proof -
  have h: "create_models (1/2) (1/100000) (9/10) (1/1000000) = Inr default_build"
    by (rule create_models_default)
  have enc: "run_model (demo_backend unit_noise) demo_weights
     (default_build ! 0) [scalar 0] =
     Some [constant_array [1, latent_dim] 0, constant_array [1, latent_dim] 0]"
    by (simp add: default_build_eq built_0 demo_encoder)
  have s0: "shape (constant_array [1, latent_dim] 0) = [1, latent_dim]"
    by simp
  have l0: "length (data (constant_array [1, latent_dim] 0)) = 1 * latent_dim"
    by (rule constant_array_length)
  have s1: "shape (constant_array [1, latent_dim] 1) = [1, latent_dim]"
    by simp
  have l1: "length (data (constant_array [1, latent_dim] 1)) = 1 * latent_dim"
    by (rule constant_array_length)
  have dec: "pick 0 (run_model (demo_backend unit_noise) demo_weights
             (default_build ! 1)
             [constant_array [1, latent_dim] 0]) \<noteq>
   pick 0 (run_model (demo_backend unit_noise) demo_weights
             (default_build ! 1)
             [constant_array [1, latent_dim] 1])"
    by (simp add: default_build_eq built_Suc_0 demo_decoder pick_def constant_array_def
        latent_dim_def)
  show ?thesis
    using h enc s0 l0 s1 l1 dec vae_depends_on_noise [OF h enc s0 l0 s0 l0 s0 l0 s1 l1 dec]
    by blast
qed

end
